theory Spec2Isabelle
  imports Complex_Main "HOL-Library.Signed_Division" "HOL-Library.Sublist"
begin

section \<open>Numbers and geometry\<close>

text \<open>
  The TypeScript sources compute with JavaScript numbers. The embedding reads a number as
  a \<^typ>\<open>real\<close>: arithmetic is exact, and the non-finite values (NaN, the infinities) are
  not part of the model. Array lengths and counters are \<^typ>\<open>nat\<close>, array indices that
  may become negative are \<^typ>\<open>int\<close>.

  The fields \<open>x\<close>, \<open>y\<close>, \<open>width\<close>, \<open>height\<close> of the source's \<open>Point\<close>, \<open>Dimension\<close> and
  \<open>Bounds\<close> carry a prefix, since a record field is a constant of the theory.
\<close>

record Point =
  pt_x :: real
  pt_y :: real

record Dimension =
  dim_width :: real
  dim_height :: real

record Bounds =
  b_x :: real
  b_y :: real
  b_width :: real
  b_height :: real

datatype error = TypeError

section \<open>The VBox layouter (vbox-layout.ts)\<close>

subsection \<open>Data\<close>

datatype HAlignment = left | center | right

text \<open>\<open>VBoxLayoutOptionsExt\<close>: the options of \<open>VBoxLayoutOptions\<close> with \<open>hGrab\<close>, \<open>vGrab\<close>.\<close>

record VBoxLayoutOptionsExt =
  resizeContainer :: bool
  paddingTop :: real
  paddingBottom :: real
  paddingLeft :: real
  paddingRight :: real
  paddingFactor :: real
  vGap :: real
  hAlign :: HAlignment
  minWidth :: real
  minHeight :: real
  hGrab :: bool
  vGrab :: bool

text \<open>
  The \<open>layoutOptions\<close> object of a node holds only the options the node overrides; a
  field that is absent there is \<open>None\<close>.
\<close>

record LayoutOptionsOverride =
  o_resizeContainer :: "bool option"
  o_paddingTop :: "real option"
  o_paddingBottom :: "real option"
  o_paddingLeft :: "real option"
  o_paddingRight :: "real option"
  o_paddingFactor :: "real option"
  o_vGap :: "real option"
  o_hAlign :: "HAlignment option"
  o_minWidth :: "real option"
  o_minHeight :: "real option"
  o_hGrab :: "bool option"
  o_vGrab :: "bool option"

text \<open>\<open>BoundsData\<close>: the scratch entry the layouter keeps for one element.\<close>

record BoundsData =
  bd_bounds :: "Bounds option"
  bd_boundsChanged :: bool

text \<open>
  A child of the container: \<open>layoutableChild\<close> is the answer of \<open>isLayoutableChild\<close>,
  \<open>layoutOptions\<close> the node's own \<open>layoutOptions\<close> (\<open>None\<close> when it is \<open>undefined\<close>), and
  \<open>boundsData\<close> the entry \<open>layouter.getBoundsData(child)\<close> of the layout pass. Each child
  is a distinct object with its own entry, so the entry is stored with the child and a
  pass returns the children with their entries updated.
\<close>

record SChildElement =
  layoutableChild :: bool
  layoutOptions :: "LayoutOptionsOverride option"
  boundsData :: BoundsData

record LayoutData =
  prefSize :: "Dimension option"

text \<open>
  The container: its \<open>bounds\<close> (a \<open>LayoutContainer\<close> is bounds aware by its type), its
  \<open>layoutData\<close> (\<open>None\<close> when the property is absent, so that \<open>isLayoutDataAware\<close> is false),
  the options \<open>getLayoutOptions(container)\<close> resolves for it, its children in order and its
  own entry in the bounds data table.
\<close>

record LayoutContainer =
  c_bounds :: Bounds
  c_layoutData :: "LayoutData option"
  c_options :: VBoxLayoutOptionsExt
  c_children :: "SChildElement list"
  c_boundsData :: BoundsData

subsection \<open>Collaborators of the base layouter\<close>

text \<open>
  Modelled from the spec: \<open>isValidDimension\<close> of the base library, the validity predicate
  that "rejects negative/NaN dimensions" (there is no NaN among the reals).
\<close>

definition isValidDimension :: "Bounds \<Rightarrow> bool" where
  "isValidDimension b = (b_width b \<ge> 0 \<and> b_height b \<ge> 0)"

text \<open>\<open>spread(a, b) = { ...a, ...b }\<close>: every field present in \<open>b\<close> replaces the one of \<open>a\<close>.\<close>

definition spread :: "VBoxLayoutOptionsExt \<Rightarrow> LayoutOptionsOverride \<Rightarrow> VBoxLayoutOptionsExt" where
  "spread a b =
     \<lparr> resizeContainer = (case o_resizeContainer b of None \<Rightarrow> resizeContainer a | Some v \<Rightarrow> v),
       paddingTop = (case o_paddingTop b of None \<Rightarrow> paddingTop a | Some v \<Rightarrow> v),
       paddingBottom = (case o_paddingBottom b of None \<Rightarrow> paddingBottom a | Some v \<Rightarrow> v),
       paddingLeft = (case o_paddingLeft b of None \<Rightarrow> paddingLeft a | Some v \<Rightarrow> v),
       paddingRight = (case o_paddingRight b of None \<Rightarrow> paddingRight a | Some v \<Rightarrow> v),
       paddingFactor = (case o_paddingFactor b of None \<Rightarrow> paddingFactor a | Some v \<Rightarrow> v),
       vGap = (case o_vGap b of None \<Rightarrow> vGap a | Some v \<Rightarrow> v),
       hAlign = (case o_hAlign b of None \<Rightarrow> hAlign a | Some v \<Rightarrow> v),
       minWidth = (case o_minWidth b of None \<Rightarrow> minWidth a | Some v \<Rightarrow> v),
       minHeight = (case o_minHeight b of None \<Rightarrow> minHeight a | Some v \<Rightarrow> v),
       hGrab = (case o_hGrab b of None \<Rightarrow> hGrab a | Some v \<Rightarrow> v),
       vGrab = (case o_vGrab b of None \<Rightarrow> vGrab a | Some v \<Rightarrow> v) \<rparr>"

definition getDefaultLayoutOptions :: VBoxLayoutOptionsExt where
  "getDefaultLayoutOptions =
     \<lparr> resizeContainer = True,
       paddingTop = 5,
       paddingBottom = 5,
       paddingLeft = 5,
       paddingRight = 5,
       paddingFactor = 1,
       vGap = 1,
       hAlign = center,
       minWidth = 0,
       minHeight = 0,
       hGrab = False,
       vGrab = False \<rparr>"

text \<open>
  Modelled from the spec: \<open>getChildLayoutOptions\<close> of the base layouter, which the
  extension only casts. The options of a child are the container's options merged with
  the node-local overrides, "node overrides win".
\<close>

definition getChildLayoutOptions ::
  "SChildElement \<Rightarrow> VBoxLayoutOptionsExt \<Rightarrow> VBoxLayoutOptionsExt" where
  "getChildLayoutOptions child containerOptions =
     (case layoutOptions child of
        None \<Rightarrow> containerOptions
      | Some ov \<Rightarrow> spread containerOptions ov)"

text \<open>
  Modelled from the spec: \<open>layoutChild\<close> of the base layouter (\<open>super.layoutChild\<close>), which
  places one child: "each child's position is the running offset; the running offset
  advances by the child's extent plus gap". The size of the child is kept. The result is
  the new bounds data entry and the advanced offset.
\<close>

definition super_layoutChild ::
  "Bounds \<Rightarrow> VBoxLayoutOptionsExt \<Rightarrow> VBoxLayoutOptionsExt \<Rightarrow> Point \<Rightarrow> BoundsData \<times> Point" where
  "super_layoutChild bounds childOptions containerOptions currentOffset =
     (\<lparr> bd_bounds = Some \<lparr> b_x = pt_x currentOffset, b_y = pt_y currentOffset,
                            b_width = b_width bounds, b_height = b_height bounds \<rparr>,
        bd_boundsChanged = True \<rparr>,
      \<lparr> pt_x = pt_x currentOffset,
        pt_y = pt_y currentOffset + b_height bounds + vGap containerOptions \<rparr>)"

subsection \<open>getChildrenSize\<close>

text \<open>
  One turn of the \<open>forEach\<close> of \<open>getChildrenSize\<close> on the loop variables
  \<open>(maxWidth, maxHeight, isFirst)\<close>.
\<close>

definition getChildrenSize_step ::
  "VBoxLayoutOptionsExt \<Rightarrow> SChildElement \<Rightarrow> real \<times> real \<times> bool \<Rightarrow> real \<times> real \<times> bool" where
  "getChildrenSize_step containerOptions child st =
     (case st of (maxWidth, maxHeight, isFirst) \<Rightarrow>
        if layoutableChild child then
          (case bd_bounds (boundsData child) of
             None \<Rightarrow> st
           | Some bounds \<Rightarrow>
               if isValidDimension bounds then
                 (max maxWidth (b_width bounds),
                  (if isFirst then maxHeight + b_height bounds
                   else maxHeight + b_height bounds + vGap containerOptions),
                  False)
               else st)
        else st)"

definition getChildrenSize :: "LayoutContainer \<Rightarrow> VBoxLayoutOptionsExt \<Rightarrow> Dimension" where
  "getChildrenSize container containerOptions =
     (case fold (getChildrenSize_step containerOptions) (c_children container) (-1, 0, True) of
        (maxWidth, maxHeight, isFirst) \<Rightarrow> \<lparr> dim_width = maxWidth, dim_height = maxHeight \<rparr>)"

subsection \<open>getFixedContainerBounds and getFinalContainerBounds\<close>

text \<open>
  \<open>EMPTY_BOUNDS\<close> is a constant of the base library; the functions that use it take it as
  a parameter. The container is bounds aware by its type, so the outer test of the source
  holds.
\<close>

definition getFixedContainerBounds :: "Bounds \<Rightarrow> LayoutContainer \<Rightarrow> Bounds" where
  "getFixedContainerBounds EMPTY_BOUNDS container =
     (case c_layoutData container of
        Some layoutData \<Rightarrow>
          (case prefSize layoutData of
             Some p \<Rightarrow> (c_bounds container)\<lparr> b_width := dim_width p, b_height := dim_height p \<rparr>
           | None \<Rightarrow> (c_bounds container)\<lparr> b_width := 0, b_height := 0 \<rparr>)
      | None \<Rightarrow> EMPTY_BOUNDS)"

definition getFinalContainerBounds ::
  "LayoutContainer \<Rightarrow> Point \<Rightarrow> VBoxLayoutOptionsExt \<Rightarrow> real \<Rightarrow> real \<Rightarrow> Bounds" where
  "getFinalContainerBounds container lastOffset options maxWidth maxHeight =
     (let size =
            (case c_layoutData container of
               Some layoutData \<Rightarrow>
                 (case prefSize layoutData of
                    Some p \<Rightarrow> p
                  | None \<Rightarrow> \<lparr> dim_width = minWidth options, dim_height = minHeight options \<rparr>)
             | None \<Rightarrow> \<lparr> dim_width = minWidth options, dim_height = minHeight options \<rparr>)
      in \<lparr> b_x = b_x (c_bounds container),
           b_y = b_y (c_bounds container),
           b_width = max (dim_width size) (maxWidth + paddingLeft options + paddingRight options),
           b_height = max (dim_height size) (maxHeight + paddingTop options + paddingBottom options) \<rparr>)"

subsection \<open>layoutChild and layoutChildren\<close>

text \<open>
  \<open>layoutChild\<close> of the extension. \<open>grabHeight\<close> and \<open>grabbingChildren\<close> are optional
  parameters; the test \<open>grabHeight && grabbingChildren\<close> holds when both are given and
  neither is zero. The base layouter has set the bounds of the entry when the extension
  reads them (the non-null assertions of the source), so the branches for an entry
  without bounds are never taken.
\<close>

definition layoutChild ::
  "Bounds \<Rightarrow> VBoxLayoutOptionsExt \<Rightarrow> VBoxLayoutOptionsExt \<Rightarrow> Point \<Rightarrow> real \<Rightarrow> real \<Rightarrow>
   real option \<Rightarrow> nat option \<Rightarrow> BoundsData \<times> Point" where
  "layoutChild bounds childOptions containerOptions currentOffset maxWidth maxHeight
               grabHeight grabbingChildren =
     (case super_layoutChild bounds childOptions containerOptions currentOffset of
        (bd0, offset) \<Rightarrow>
          (let bd1 =
                 (if hGrab childOptions then
                    (case bd_bounds bd0 of
                       Some b \<Rightarrow> \<lparr> bd_bounds = Some (b\<lparr> b_width := maxWidth \<rparr>),
                                   bd_boundsChanged = True \<rparr>
                     | None \<Rightarrow> bd0)
                  else bd0)
           in
             (case (grabHeight, grabbingChildren) of
                (Some g, Some n) \<Rightarrow>
                  if vGrab childOptions \<and> g \<noteq> 0 \<and> n \<noteq> 0 then
                    (case bd_bounds bd1 of
                       Some b \<Rightarrow>
                         (let height = b_height b + g / real n
                          in (\<lparr> bd_bounds = Some (b\<lparr> b_height := height \<rparr>),
                                 bd_boundsChanged = True \<rparr>,
                              \<lparr> pt_x = pt_x currentOffset, pt_y = pt_y currentOffset + height \<rparr>))
                     | None \<Rightarrow> (bd1, offset))
                  else (bd1, offset)
              | _ \<Rightarrow> (bd1, offset))))"

text \<open>
  The \<open>forEach\<close> of \<open>layoutChildren\<close>: the children in order, the running offset threaded
  through; a child that is not layoutable or has no valid bounds is left as it is.
\<close>

fun layoutChildren_loop ::
  "VBoxLayoutOptionsExt \<Rightarrow> real \<Rightarrow> real \<Rightarrow> real option \<Rightarrow> nat option \<Rightarrow>
   SChildElement list \<Rightarrow> Point \<Rightarrow> SChildElement list \<times> Point" where
  "layoutChildren_loop containerOptions maxWidth maxHeight grabHeight grabbingChildren
       [] currentOffset = ([], currentOffset)"
| "layoutChildren_loop containerOptions maxWidth maxHeight grabHeight grabbingChildren
       (child # rest) currentOffset =
     (if layoutableChild child then
        (case bd_bounds (boundsData child) of
           Some bounds \<Rightarrow>
             if isValidDimension bounds then
               (case layoutChild bounds (getChildLayoutOptions child containerOptions)
                       containerOptions currentOffset maxWidth maxHeight grabHeight
                       grabbingChildren of
                  (bd, offset) \<Rightarrow>
                    (case layoutChildren_loop containerOptions maxWidth maxHeight grabHeight
                            grabbingChildren rest offset of
                       (rest', lastOffset) \<Rightarrow> (child\<lparr> boundsData := bd \<rparr> # rest', lastOffset)))
             else
               (case layoutChildren_loop containerOptions maxWidth maxHeight grabHeight
                       grabbingChildren rest currentOffset of
                  (rest', lastOffset) \<Rightarrow> (child # rest', lastOffset))
         | None \<Rightarrow>
             (case layoutChildren_loop containerOptions maxWidth maxHeight grabHeight
                     grabbingChildren rest currentOffset of
                (rest', lastOffset) \<Rightarrow> (child # rest', lastOffset)))
      else
        (case layoutChildren_loop containerOptions maxWidth maxHeight grabHeight
                grabbingChildren rest currentOffset of
           (rest', lastOffset) \<Rightarrow> (child # rest', lastOffset)))"

definition layoutChildren ::
  "LayoutContainer \<Rightarrow> VBoxLayoutOptionsExt \<Rightarrow> real \<Rightarrow> real \<Rightarrow> real option \<Rightarrow> nat option \<Rightarrow>
   SChildElement list \<times> Point" where
  "layoutChildren container containerOptions maxWidth maxHeight grabHeight grabbingChildren =
     layoutChildren_loop containerOptions maxWidth maxHeight grabHeight grabbingChildren
       (c_children container)
       \<lparr> pt_x = paddingLeft containerOptions
                 + 0.5 * (maxWidth - maxWidth / paddingFactor containerOptions),
         pt_y = paddingTop containerOptions
                 + 0.5 * (maxHeight - maxHeight / paddingFactor containerOptions) \<rparr>"

subsection \<open>layout\<close>

text \<open>The local constants of \<open>layout\<close>, each under its name in the source.\<close>

definition layout_maxWidth :: "Bounds \<Rightarrow> LayoutContainer \<Rightarrow> real" where
  "layout_maxWidth EMPTY_BOUNDS container =
     (let options = c_options container;
          childrenSize = getChildrenSize container options;
          fixedSize = getFixedContainerBounds EMPTY_BOUNDS container
      in paddingFactor options *
           (if resizeContainer options
            then max (b_width fixedSize - paddingLeft options - paddingRight options)
                     (dim_width childrenSize)
            else max 0 (b_width fixedSize - paddingLeft options - paddingRight options)))"

definition layout_maxHeight :: "Bounds \<Rightarrow> LayoutContainer \<Rightarrow> real" where
  "layout_maxHeight EMPTY_BOUNDS container =
     (let options = c_options container;
          childrenSize = getChildrenSize container options;
          fixedSize = getFixedContainerBounds EMPTY_BOUNDS container
      in paddingFactor options *
           (if resizeContainer options
            then max (b_height fixedSize - paddingTop options - paddingBottom options)
                     (dim_height childrenSize)
            else max 0 (b_height fixedSize - paddingTop options - paddingBottom options)))"

definition layout_grabHeight :: "Bounds \<Rightarrow> LayoutContainer \<Rightarrow> real" where
  "layout_grabHeight EMPTY_BOUNDS container =
     layout_maxHeight EMPTY_BOUNDS container
       - dim_height (getChildrenSize container (c_options container))"

definition layout_grabbingChildren :: "LayoutContainer \<Rightarrow> nat" where
  "layout_grabbingChildren container =
     length (filter vGrab
       (map (\<lambda>child. getChildLayoutOptions child (c_options container)) (c_children container)))"

text \<open>
  \<open>layout\<close> writes the bounds data of the children and of the container; the model
  returns the container with both updated.
\<close>

definition layout :: "Bounds \<Rightarrow> LayoutContainer \<Rightarrow> LayoutContainer" where
  "layout EMPTY_BOUNDS container =
     (let options = c_options container;
          childrenSize = getChildrenSize container options;
          maxWidth = layout_maxWidth EMPTY_BOUNDS container;
          maxHeight = layout_maxHeight EMPTY_BOUNDS container;
          grabHeight = layout_grabHeight EMPTY_BOUNDS container;
          grabbingChildren = layout_grabbingChildren container
      in if maxWidth > 0 \<and> maxHeight > 0 then
           (case layoutChildren container options maxWidth maxHeight
                   (Some grabHeight) (Some grabbingChildren) of
              (children', offset) \<Rightarrow>
                container\<lparr> c_children := children',
                           c_boundsData :=
                             \<lparr> bd_bounds = Some (getFinalContainerBounds container offset options
                                                   (dim_width childrenSize) (dim_height childrenSize)),
                               bd_boundsChanged = True \<rparr> \<rparr>)
         else container)"

section \<open>The layout commands (layout-commands.ts)\<close>

subsection \<open>Data\<close>

text \<open>
  A model element as the commands see it: its id and its bounds. The capability
  predicates \<open>isResizable\<close> and \<open>isBoundsAwareMoveable\<close> are type guards supplied from
  outside; an element they accept is bounds aware. The commands take them as parameters.
\<close>

record SModelElement =
  e_id :: string
  e_bounds :: Bounds

text \<open>The model root with its index; \<open>getById\<close> is \<open>undefined\<close> on an unknown id.\<close>

record SModelRoot =
  getById :: "string \<rightharpoonup> SModelElement"

record ElementAndBounds =
  eb_elementId :: string
  eb_newPosition :: Point
  eb_newSize :: Dimension

record ElementMove =
  em_elementId :: string
  em_fromPosition :: Point
  em_toPosition :: Point

datatype Action =
    SetBoundsAction "ElementAndBounds list"
  | ChangeBoundsOperation "ElementAndBounds list"
  | MoveAction "ElementMove list"

datatype ResizeDimension = Width | Height | Width_And_Height

datatype Alignment = Left | Center | Right | Top | Middle | Bottom

type_synonym ReduceFn = "real list \<Rightarrow> real"

text \<open>
  A selection function returns an array of elements; \<open>Select.first\<close> and \<open>Select.last\<close>
  of an empty array return an array that holds \<open>undefined\<close>, which is \<open>None\<close> here.
\<close>

type_synonym SelectFn = "SModelElement list \<Rightarrow> SModelElement option list"

record ResizeElementsAction =
  ra_elementIds :: "string list"
  ra_dimension :: ResizeDimension
  ra_reductionFunction :: ReduceFn

record AlignElementsAction =
  aa_elementIds :: "string list"
  aa_alignment :: Alignment
  aa_selectionFunction :: SelectFn

subsection \<open>Reduce and Select\<close>

text \<open>
  \<open>Math.min()\<close> and \<open>Math.max()\<close> of no argument are the infinities, the average of no
  value is NaN and the first or last of no value is \<open>undefined\<close>: none of them is a real
  number, so the reduce functions are given on the non-empty lists only. The commands
  call them with the values of at least two elements.
\<close>

fun Reduce_min :: ReduceFn where
  "Reduce_min (v # vs) = fold min vs v"

fun Reduce_max :: ReduceFn where
  "Reduce_max (v # vs) = fold max vs v"

fun Reduce_avg :: ReduceFn where
  "Reduce_avg (v # vs) = foldl (\<lambda>a b. a + b) 0 (v # vs) / real (length (v # vs))"

fun Reduce_first :: ReduceFn where
  "Reduce_first (v # vs) = v"

fun Reduce_last :: ReduceFn where
  "Reduce_last (v # vs) = last (v # vs)"

definition Select_all :: SelectFn where
  "Select_all elements = map Some elements"

definition Select_first :: SelectFn where
  "Select_first elements = (case elements of [] \<Rightarrow> [None] | e # _ \<Rightarrow> [Some e])"

definition Select_last :: SelectFn where
  "Select_last elements = (if elements = [] then [None] else [Some (last elements)])"

subsection \<open>Validation against the movement restrictor\<close>

text \<open>
  Modelled from the spec: \<open>toValidElementAndBounds\<close> and \<open>toValidElementMove\<close> of
  \<open>utils/layout-utils\<close>. The movement restriction policy is consulted once per element
  with the proposed delta; "any resulting delta that a movement-restriction policy
  rejects is silently dropped", an accepted one is kept as proposed. The restrictor is
  optional (\<open>None\<close>: nothing is rejected).
\<close>

definition toValidElementAndBounds ::
  "SModelElement \<Rightarrow> ElementAndBounds \<Rightarrow> (SModelElement \<Rightarrow> ElementAndBounds \<Rightarrow> bool) option \<Rightarrow>
   ElementAndBounds option" where
  "toValidElementAndBounds element bounds movementRestrictor =
     (case movementRestrictor of
        None \<Rightarrow> Some bounds
      | Some validate \<Rightarrow> if validate element bounds then Some bounds else None)"

definition toValidElementMove ::
  "SModelElement \<Rightarrow> ElementMove \<Rightarrow> (SModelElement \<Rightarrow> ElementMove \<Rightarrow> bool) option \<Rightarrow>
   ElementMove option" where
  "toValidElementMove element move movementRestrictor =
     (case movementRestrictor of
        None \<Rightarrow> Some move
      | Some validate \<Rightarrow> if validate element move then Some move else None)"

subsection \<open>LayoutElementsCommand.getActionElements\<close>

text \<open>
  \<open>getActionElements\<close> fills \<open>action.elementIds\<close> from the selection service when it is
  empty (the array of the action is mutated), then resolves every id and keeps the
  elements that \<open>isActionElement\<close> accepts. The result is the elements and the ids the
  action holds afterwards.
\<close>

definition getActionElements ::
  "(SModelElement \<Rightarrow> bool) \<Rightarrow> string list \<Rightarrow> SModelRoot \<Rightarrow> string list \<Rightarrow>
   SModelElement list \<times> string list" where
  "getActionElements isActionElement selectedElementIDs model actionElementIds =
     (let elementIDs = (if length actionElementIds = 0
                        then actionElementIds @ selectedElementIDs
                        else actionElementIds)
      in (List.map_filter
            (\<lambda>id. case getById model id of
                     None \<Rightarrow> None
                   | Some element \<Rightarrow> if isActionElement element then Some element else None)
            elementIDs,
          elementIDs))"

subsection \<open>ResizeElementsCommand\<close>

definition resize_createElementAndBounds ::
  "(SModelElement \<Rightarrow> ElementAndBounds \<Rightarrow> bool) option \<Rightarrow> SModelElement \<Rightarrow>
   (SModelElement \<Rightarrow> ElementAndBounds \<Rightarrow> ElementAndBounds) \<Rightarrow> ElementAndBounds option" where
  "resize_createElementAndBounds movementRestrictor element change =
     (let bounds = \<lparr> eb_elementId = e_id element,
                     eb_newPosition = \<lparr> pt_x = b_x (e_bounds element), pt_y = b_y (e_bounds element) \<rparr>,
                     eb_newSize = \<lparr> dim_width = b_width (e_bounds element),
                                    dim_height = b_height (e_bounds element) \<rparr> \<rparr>
      in toValidElementAndBounds element (change element bounds) movementRestrictor)"

text \<open>The result of \<open>dispatchResizeActions\<close> is the list handed to \<open>dispatchActions\<close>.\<close>

definition dispatchResizeActions ::
  "(SModelElement \<Rightarrow> ElementAndBounds \<Rightarrow> bool) option \<Rightarrow> SModelElement list \<Rightarrow>
   (SModelElement \<Rightarrow> ElementAndBounds \<Rightarrow> ElementAndBounds) \<Rightarrow> Action list" where
  "dispatchResizeActions movementRestrictor elements change =
     (let elementAndBounds =
            List.map_filter
              (\<lambda>element. resize_createElementAndBounds movementRestrictor element change) elements
      in [SetBoundsAction elementAndBounds, ChangeBoundsOperation elementAndBounds])"

definition resizeWidth ::
  "(SModelElement \<Rightarrow> ElementAndBounds \<Rightarrow> bool) option \<Rightarrow> ResizeElementsAction \<Rightarrow>
   SModelElement list \<Rightarrow> Action list" where
  "resizeWidth movementRestrictor action elements =
     (let targetWidth = ra_reductionFunction action
                          (map (\<lambda>element. b_width (e_bounds element)) elements)
      in dispatchResizeActions movementRestrictor elements
           (\<lambda>element bounds.
              let halfDiffWidth = 0.5 * (targetWidth - b_width (e_bounds element))
              in bounds\<lparr> eb_newPosition :=
                           (eb_newPosition bounds)\<lparr> pt_x := b_x (e_bounds element) - halfDiffWidth \<rparr>,
                         eb_newSize := (eb_newSize bounds)\<lparr> dim_width := targetWidth \<rparr> \<rparr>))"

definition resizeHeight ::
  "(SModelElement \<Rightarrow> ElementAndBounds \<Rightarrow> bool) option \<Rightarrow> ResizeElementsAction \<Rightarrow>
   SModelElement list \<Rightarrow> Action list" where
  "resizeHeight movementRestrictor action elements =
     (let targetHeight = ra_reductionFunction action
                           (map (\<lambda>element. b_height (e_bounds element)) elements)
      in dispatchResizeActions movementRestrictor elements
           (\<lambda>element bounds.
              let halfDiffHeight = 0.5 * (targetHeight - b_height (e_bounds element))
              in bounds\<lparr> eb_newPosition :=
                           (eb_newPosition bounds)\<lparr> pt_y := b_y (e_bounds element) - halfDiffHeight \<rparr>,
                         eb_newSize := (eb_newSize bounds)\<lparr> dim_height := targetHeight \<rparr> \<rparr>))"

definition resizeWidthAndHeight ::
  "(SModelElement \<Rightarrow> ElementAndBounds \<Rightarrow> bool) option \<Rightarrow> ResizeElementsAction \<Rightarrow>
   SModelElement list \<Rightarrow> Action list" where
  "resizeWidthAndHeight movementRestrictor action elements =
     (let targetWidth = ra_reductionFunction action
                          (map (\<lambda>element. b_width (e_bounds element)) elements);
          targetHeight = ra_reductionFunction action
                           (map (\<lambda>element. b_height (e_bounds element)) elements)
      in dispatchResizeActions movementRestrictor elements
           (\<lambda>element bounds.
              let halfDiffWidth = 0.5 * (targetWidth - b_width (e_bounds element));
                  halfDiffHeight = 0.5 * (targetHeight - b_height (e_bounds element))
              in bounds\<lparr> eb_newPosition :=
                           \<lparr> pt_x = b_x (e_bounds element) - halfDiffWidth,
                             pt_y = b_y (e_bounds element) - halfDiffHeight \<rparr>,
                         eb_newSize := \<lparr> dim_width = targetWidth, dim_height = targetHeight \<rparr> \<rparr>))"

text \<open>
  The outcome of \<open>execute\<close>: the root it returns, the actions it handed to the action
  dispatcher, in order, and the ids the action holds afterwards.
\<close>

record CommandOutcome =
  returned :: SModelRoot
  dispatched :: "Action list"
  elementIds_after :: "string list"

definition resize_execute ::
  "(SModelElement \<Rightarrow> bool) \<Rightarrow> (SModelElement \<Rightarrow> ElementAndBounds \<Rightarrow> bool) option \<Rightarrow>
   string list \<Rightarrow> ResizeElementsAction \<Rightarrow> SModelRoot \<Rightarrow> CommandOutcome" where
  "resize_execute isResizable movementRestrictor selectedElementIDs action contextRoot =
     (case getActionElements isResizable selectedElementIDs contextRoot (ra_elementIds action) of
        (elements, ids) \<Rightarrow>
          \<lparr> returned = contextRoot,
            dispatched =
              (if length elements > 1 then
                 (case ra_dimension action of
                    Width \<Rightarrow> resizeWidth movementRestrictor action elements
                  | Height \<Rightarrow> resizeHeight movementRestrictor action elements
                  | Width_And_Height \<Rightarrow> resizeWidthAndHeight movementRestrictor action elements)
               else []),
            elementIds_after = ids \<rparr>)"

subsection \<open>AlignElementsCommand\<close>

text \<open>
  \<open>array.reduce(f)\<close> without an initial value: a \<open>TypeError\<close> on the empty array,
  otherwise the fold from the left that starts with the first value.
\<close>

fun js_reduce :: "('a \<Rightarrow> 'a \<Rightarrow> 'a) \<Rightarrow> 'a list \<Rightarrow> error + 'a" where
  "js_reduce f [] = Inl TypeError"
| "js_reduce f (v # vs) = Inr (foldl f v vs)"

text \<open>
  \<open>calculationElements.map(element => g(element.bounds))\<close>: reading \<open>bounds\<close> of an
  \<open>undefined\<close> entry throws a \<open>TypeError\<close>.
\<close>

fun map_bounds :: "(Bounds \<Rightarrow> real) \<Rightarrow> SModelElement option list \<Rightarrow> error + real list" where
  "map_bounds g [] = Inr []"
| "map_bounds g (None # es) = Inl TypeError"
| "map_bounds g (Some e # es) =
     (case map_bounds g es of Inl err \<Rightarrow> Inl err | Inr vs \<Rightarrow> Inr (g (e_bounds e) # vs))"

definition createElementMove ::
  "(SModelElement \<Rightarrow> ElementMove \<Rightarrow> bool) option \<Rightarrow> SModelElement \<Rightarrow>
   (SModelElement \<Rightarrow> ElementMove \<Rightarrow> ElementMove) \<Rightarrow> ElementMove option" where
  "createElementMove movementRestrictor element change =
     (let move = \<lparr> em_elementId = e_id element,
                   em_fromPosition = \<lparr> pt_x = b_x (e_bounds element), pt_y = b_y (e_bounds element) \<rparr>,
                   em_toPosition = \<lparr> pt_x = b_x (e_bounds element), pt_y = b_y (e_bounds element) \<rparr> \<rparr>
      in toValidElementMove element (change element move) movementRestrictor)"

definition align_createElementAndBounds :: "SModelElement \<Rightarrow> ElementMove \<Rightarrow> ElementAndBounds" where
  "align_createElementAndBounds element move =
     \<lparr> eb_elementId = e_id element,
       eb_newPosition = \<lparr> pt_x = pt_x (em_toPosition move), pt_y = pt_y (em_toPosition move) \<rparr>,
       eb_newSize = \<lparr> dim_width = b_width (e_bounds element),
                      dim_height = b_height (e_bounds element) \<rparr> \<rparr>"

text \<open>
  The \<open>forEach\<close> of \<open>dispatchAlignActions\<close> on the two arrays \<open>moves\<close> and
  \<open>elementAndBounds\<close>.
\<close>

fun dispatchAlignActions_loop ::
  "(SModelElement \<Rightarrow> ElementMove \<Rightarrow> bool) option \<Rightarrow>
   (SModelElement \<Rightarrow> ElementMove \<Rightarrow> ElementMove) \<Rightarrow> SModelElement list \<Rightarrow>
   ElementMove list \<times> ElementAndBounds list" where
  "dispatchAlignActions_loop movementRestrictor change [] = ([], [])"
| "dispatchAlignActions_loop movementRestrictor change (element # rest) =
     (case dispatchAlignActions_loop movementRestrictor change rest of
        (moves, elementAndBounds) \<Rightarrow>
          (case createElementMove movementRestrictor element change of
             Some move \<Rightarrow>
               (move # moves, align_createElementAndBounds element move # elementAndBounds)
           | None \<Rightarrow> (moves, elementAndBounds)))"

definition dispatchAlignActions ::
  "(SModelElement \<Rightarrow> ElementMove \<Rightarrow> bool) option \<Rightarrow> SModelElement list \<Rightarrow>
   (SModelElement \<Rightarrow> ElementMove \<Rightarrow> ElementMove) \<Rightarrow> Action list" where
  "dispatchAlignActions movementRestrictor elements change =
     (case dispatchAlignActions_loop movementRestrictor change elements of
        (moves, elementAndBounds) \<Rightarrow> [MoveAction moves, ChangeBoundsOperation elementAndBounds])"

definition alignLeft ::
  "(SModelElement \<Rightarrow> ElementMove \<Rightarrow> bool) option \<Rightarrow> AlignElementsAction \<Rightarrow>
   SModelElement list \<Rightarrow> error + Action list" where
  "alignLeft movementRestrictor action elements =
     (let calculationElements = aa_selectionFunction action elements
      in case map_bounds b_x calculationElements of
           Inl err \<Rightarrow> Inl err
         | Inr xs \<Rightarrow>
             (case js_reduce min xs of
                Inl err \<Rightarrow> Inl err
              | Inr minX \<Rightarrow>
                  Inr (dispatchAlignActions movementRestrictor elements
                         (\<lambda>_ move. move\<lparr> em_toPosition := (em_toPosition move)\<lparr> pt_x := minX \<rparr> \<rparr>))))"

definition alignCenter ::
  "(SModelElement \<Rightarrow> ElementMove \<Rightarrow> bool) option \<Rightarrow> AlignElementsAction \<Rightarrow>
   SModelElement list \<Rightarrow> error + Action list" where
  "alignCenter movementRestrictor action elements =
     (let calculationElements = aa_selectionFunction action elements
      in case map_bounds b_x calculationElements of
           Inl err \<Rightarrow> Inl err
         | Inr xs \<Rightarrow>
             (case js_reduce min xs of
                Inl err \<Rightarrow> Inl err
              | Inr minX \<Rightarrow>
                  (case map_bounds (\<lambda>b. b_x b + b_width b) calculationElements of
                     Inl err \<Rightarrow> Inl err
                   | Inr rs \<Rightarrow>
                       (case js_reduce max rs of
                          Inl err \<Rightarrow> Inl err
                        | Inr maxX \<Rightarrow>
                            (let diffX = maxX - minX;
                                 centerX = minX + 0.5 * diffX
                             in Inr (dispatchAlignActions movementRestrictor elements
                                  (\<lambda>element move.
                                     move\<lparr> em_toPosition := (em_toPosition move)
                                       \<lparr> pt_x := centerX - 0.5 * b_width (e_bounds element) \<rparr> \<rparr>)))))))"

definition alignRight ::
  "(SModelElement \<Rightarrow> ElementMove \<Rightarrow> bool) option \<Rightarrow> AlignElementsAction \<Rightarrow>
   SModelElement list \<Rightarrow> error + Action list" where
  "alignRight movementRestrictor action elements =
     (let calculationElements = aa_selectionFunction action elements
      in case map_bounds (\<lambda>b. b_x b + b_width b) calculationElements of
           Inl err \<Rightarrow> Inl err
         | Inr rs \<Rightarrow>
             (case js_reduce max rs of
                Inl err \<Rightarrow> Inl err
              | Inr maxX \<Rightarrow>
                  Inr (dispatchAlignActions movementRestrictor elements
                         (\<lambda>element move.
                            move\<lparr> em_toPosition := (em_toPosition move)
                              \<lparr> pt_x := maxX - b_width (e_bounds element) \<rparr> \<rparr>))))"

definition alignTop ::
  "(SModelElement \<Rightarrow> ElementMove \<Rightarrow> bool) option \<Rightarrow> AlignElementsAction \<Rightarrow>
   SModelElement list \<Rightarrow> error + Action list" where
  "alignTop movementRestrictor action elements =
     (let calculationElements = aa_selectionFunction action elements
      in case map_bounds b_y calculationElements of
           Inl err \<Rightarrow> Inl err
         | Inr ys \<Rightarrow>
             (case js_reduce min ys of
                Inl err \<Rightarrow> Inl err
              | Inr minY \<Rightarrow>
                  Inr (dispatchAlignActions movementRestrictor elements
                         (\<lambda>_ move. move\<lparr> em_toPosition := (em_toPosition move)\<lparr> pt_y := minY \<rparr> \<rparr>))))"

definition alignMiddle ::
  "(SModelElement \<Rightarrow> ElementMove \<Rightarrow> bool) option \<Rightarrow> AlignElementsAction \<Rightarrow>
   SModelElement list \<Rightarrow> error + Action list" where
  "alignMiddle movementRestrictor action elements =
     (let calculationElements = aa_selectionFunction action elements
      in case map_bounds b_y calculationElements of
           Inl err \<Rightarrow> Inl err
         | Inr ys \<Rightarrow>
             (case js_reduce min ys of
                Inl err \<Rightarrow> Inl err
              | Inr minY \<Rightarrow>
                  (case map_bounds (\<lambda>b. b_y b + b_height b) calculationElements of
                     Inl err \<Rightarrow> Inl err
                   | Inr bs \<Rightarrow>
                       (case js_reduce max bs of
                          Inl err \<Rightarrow> Inl err
                        | Inr maxY \<Rightarrow>
                            (let diffY = maxY - minY;
                                 middleY = minY + 0.5 * diffY
                             in Inr (dispatchAlignActions movementRestrictor elements
                                  (\<lambda>element move.
                                     move\<lparr> em_toPosition := (em_toPosition move)
                                       \<lparr> pt_y := middleY - 0.5 * b_height (e_bounds element) \<rparr> \<rparr>)))))))"

definition alignBottom ::
  "(SModelElement \<Rightarrow> ElementMove \<Rightarrow> bool) option \<Rightarrow> AlignElementsAction \<Rightarrow>
   SModelElement list \<Rightarrow> error + Action list" where
  "alignBottom movementRestrictor action elements =
     (let calculationElements = aa_selectionFunction action elements
      in case map_bounds (\<lambda>b. b_y b + b_height b) calculationElements of
           Inl err \<Rightarrow> Inl err
         | Inr bs \<Rightarrow>
             (case js_reduce max bs of
                Inl err \<Rightarrow> Inl err
              | Inr maxY \<Rightarrow>
                  Inr (dispatchAlignActions movementRestrictor elements
                         (\<lambda>element move.
                            move\<lparr> em_toPosition := (em_toPosition move)
                              \<lparr> pt_y := maxY - b_height (e_bounds element) \<rparr> \<rparr>))))"

text \<open>An exception thrown below \<open>execute\<close> leaves it: the outcome is then the error.\<close>

definition align_execute ::
  "(SModelElement \<Rightarrow> bool) \<Rightarrow> (SModelElement \<Rightarrow> ElementMove \<Rightarrow> bool) option \<Rightarrow>
   string list \<Rightarrow> AlignElementsAction \<Rightarrow> SModelRoot \<Rightarrow> error + CommandOutcome" where
  "align_execute isBoundsAwareMoveable movementRestrictor selectedElementIDs action contextRoot =
     (case getActionElements isBoundsAwareMoveable selectedElementIDs contextRoot
             (aa_elementIds action) of
        (elements, ids) \<Rightarrow>
          (case (if length elements > 1 then
                   (case aa_alignment action of
                      Left \<Rightarrow> alignLeft movementRestrictor action elements
                    | Center \<Rightarrow> alignCenter movementRestrictor action elements
                    | Right \<Rightarrow> alignRight movementRestrictor action elements
                    | Top \<Rightarrow> alignTop movementRestrictor action elements
                    | Middle \<Rightarrow> alignMiddle movementRestrictor action elements
                    | Bottom \<Rightarrow> alignBottom movementRestrictor action elements)
                 else Inr []) of
             Inl err \<Rightarrow> Inl err
           | Inr actions \<Rightarrow>
               Inr \<lparr> returned = contextRoot, dispatched = actions, elementIds_after = ids \<rparr>))"

section \<open>The marker navigator (marker-navigator.ts)\<close>

text \<open>
  The markers and the current element are model elements of a type \<open>'e\<close>; the comparator
  (\<open>markerComparator.compare\<close>) and \<open>collectIssueMarkers\<close> of \<open>utils/marker\<close> are injected
  resp. imported collaborators and are parameters here.
\<close>

text \<open>The default comparator \<open>SModelElementComparator\<close>.\<close>

definition SModelElementComparator_compare :: "'e \<Rightarrow> 'e \<Rightarrow> real" where
  "SModelElementComparator_compare one other = 0"

text \<open>
  \<open>LeftToRightTopToBottomComparator\<close>. The library function \<open>findParentByFeature\<close> finds
  the nearest selectable and bounds aware ancestor of an element; the parameter
  \<open>findParent\<close> gives the bounds of that ancestor, \<open>None\<close> when there is none.
\<close>

definition LeftToRightTopToBottomComparator_compare ::
  "('e \<Rightarrow> Bounds option) \<Rightarrow> 'e \<Rightarrow> 'e \<Rightarrow> real" where
  "LeftToRightTopToBottomComparator_compare findParent one other =
     (case (findParent one, findParent other) of
        (Some boundsOne, Some boundsOther) \<Rightarrow>
          if b_y boundsOne \<noteq> b_y boundsOther then b_y boundsOne - b_y boundsOther
          else if b_x boundsOne \<noteq> b_x boundsOther then b_x boundsOne - b_x boundsOther
          else 0
      | _ \<Rightarrow> 0)"

text \<open>
  \<open>Array.prototype.sort(compare)\<close> is a stable sort; the model sorts by stable insertion,
  which is what every stable sort computes when the comparator is a consistent order.
\<close>

fun js_sort_insert :: "('e \<Rightarrow> 'e \<Rightarrow> real) \<Rightarrow> 'e \<Rightarrow> 'e list \<Rightarrow> 'e list" where
  "js_sort_insert cmp a [] = [a]"
| "js_sort_insert cmp a (b # bs) =
     (if cmp a b \<le> 0 then a # b # bs else b # js_sort_insert cmp a bs)"

definition js_sort :: "('e \<Rightarrow> 'e \<Rightarrow> real) \<Rightarrow> 'e list \<Rightarrow> 'e list" where
  "js_sort cmp xs = foldr (js_sort_insert cmp) xs []"

text \<open>
  The remainder \<open>a % b\<close> on integers: NaN (here \<open>None\<close>) for \<open>b = 0\<close>, otherwise the
  remainder of the truncating division, with the sign of \<open>a\<close>.
\<close>

definition js_rem :: "int \<Rightarrow> int \<Rightarrow> int option" where
  "js_rem a b = (if b = 0 then None else Some (a smod b))"

text \<open>
  \<open>array[i]\<close>: \<open>undefined\<close> (here \<open>None\<close>) when the index is NaN or outside the array.
\<close>

definition js_index :: "'a list \<Rightarrow> int option \<Rightarrow> 'a option" where
  "js_index xs i =
     (case i of
        None \<Rightarrow> None
      | Some k \<Rightarrow> if 0 \<le> k \<and> k < int (length xs) then Some (xs ! nat k) else None)"

definition getMarkers ::
  "('e \<Rightarrow> 'e \<Rightarrow> real) \<Rightarrow> ('r \<Rightarrow> 'e list) \<Rightarrow> 'r \<Rightarrow> ('e \<Rightarrow> bool) \<Rightarrow> 'e list" where
  "getMarkers cmp collectIssueMarkers modelRoot predicate =
     js_sort cmp (filter predicate (collectIssueMarkers modelRoot))"

function getNextIndex_loop :: "('e \<Rightarrow> 'e \<Rightarrow> real) \<Rightarrow> 'e \<Rightarrow> 'e list \<Rightarrow> nat \<Rightarrow> int" where
  "getNextIndex_loop cmp current markers index =
     (if index < length markers then
        (if cmp (markers ! index) current > 0 then int index
         else getNextIndex_loop cmp current markers (index + 1))
      else 0)"
  by pat_completeness auto
termination
  by (relation "measure (\<lambda>(cmp, current, markers, index). length markers - index)") auto

definition getNextIndex :: "('e \<Rightarrow> 'e \<Rightarrow> real) \<Rightarrow> 'e \<Rightarrow> 'e list \<Rightarrow> int" where
  "getNextIndex cmp current markers = getNextIndex_loop cmp current markers 0"

text \<open>
  The loop of \<open>getPreviousIndex\<close> counts down from \<open>markers.length - 1\<close>; the argument of
  the recursion is the index plus one.
\<close>

fun getPreviousIndex_loop :: "('e \<Rightarrow> 'e \<Rightarrow> real) \<Rightarrow> 'e \<Rightarrow> 'e list \<Rightarrow> nat \<Rightarrow> int" where
  "getPreviousIndex_loop cmp current markers 0 = int (length markers) - 1"
| "getPreviousIndex_loop cmp current markers (Suc index) =
     (if cmp (markers ! index) current < 0 then int index
      else getPreviousIndex_loop cmp current markers index)"

definition getPreviousIndex :: "('e \<Rightarrow> 'e \<Rightarrow> real) \<Rightarrow> 'e \<Rightarrow> 'e list \<Rightarrow> int" where
  "getPreviousIndex cmp current markers =
     getPreviousIndex_loop cmp current markers (length markers)"

definition "next" ::
  "('e \<Rightarrow> 'e \<Rightarrow> real) \<Rightarrow> ('r \<Rightarrow> 'e list) \<Rightarrow> 'r \<Rightarrow> 'e option \<Rightarrow> ('e \<Rightarrow> bool) \<Rightarrow> 'e option" where
  "next cmp collectIssueMarkers modelRoot current predicate =
     (let markers = getMarkers cmp collectIssueMarkers modelRoot predicate
      in case current of
           None \<Rightarrow> if length markers > 0 then Some (markers ! 0) else None
         | Some cur \<Rightarrow>
             js_index markers (js_rem (getNextIndex cmp cur markers) (int (length markers))))"

definition previous ::
  "('e \<Rightarrow> 'e \<Rightarrow> real) \<Rightarrow> ('r \<Rightarrow> 'e list) \<Rightarrow> 'r \<Rightarrow> 'e option \<Rightarrow> ('e \<Rightarrow> bool) \<Rightarrow> 'e option" where
  "previous cmp collectIssueMarkers modelRoot current predicate =
     (let markers = getMarkers cmp collectIssueMarkers modelRoot predicate
      in case current of
           None \<Rightarrow> if length markers > 0 then Some (markers ! 0) else None
         | Some cur \<Rightarrow>
             js_index markers (js_rem (getPreviousIndex cmp cur markers) (int (length markers))))"

section \<open>Notions used to state the properties\<close>

text \<open>
  A child that the layouter measures and places: a layoutable child whose bounds data
  entry holds valid bounds.
\<close>

definition hasValidBounds :: "SChildElement \<Rightarrow> bool" where
  "hasValidBounds child =
     (layoutableChild child \<and>
      (case bd_bounds (boundsData child) of None \<Rightarrow> False | Some b \<Rightarrow> isValidDimension b))"

text \<open>The height a child has in the bounds data table (0 when it has no bounds there).\<close>

definition childHeight :: "SChildElement \<Rightarrow> real" where
  "childHeight child = (case bd_bounds (boundsData child) of None \<Rightarrow> 0 | Some b \<Rightarrow> b_height b)"

text \<open>
  The extra vertical extent a pass grants: per child, the height after the pass minus the
  height before it.
\<close>

definition grantedExtra :: "SChildElement list \<Rightarrow> SChildElement list \<Rightarrow> real list" where
  "grantedExtra before after = map2 (\<lambda>b a. childHeight a - childHeight b) before after"

text \<open>The vertical position and the height of every child in the bounds data table.\<close>

definition verticalGeometry :: "LayoutContainer \<Rightarrow> (real \<times> real) option list" where
  "verticalGeometry container =
     map (\<lambda>child. map_option (\<lambda>b. (b_y b, b_height b)) (bd_bounds (boundsData child)))
       (c_children container)"

section \<open>Example inputs\<close>

definition example_EMPTY_BOUNDS :: Bounds where
  "example_EMPTY_BOUNDS = \<lparr> b_x = 0, b_y = 0, b_width = -1, b_height = -1 \<rparr>"

definition example_child :: "real \<Rightarrow> real \<Rightarrow> bool \<Rightarrow> SChildElement" where
  "example_child w h grab =
     \<lparr> layoutableChild = True,
       layoutOptions =
         (if grab then
            Some \<lparr> o_resizeContainer = None, o_paddingTop = None, o_paddingBottom = None,
                   o_paddingLeft = None, o_paddingRight = None, o_paddingFactor = None,
                   o_vGap = None, o_hAlign = None, o_minWidth = None, o_minHeight = None,
                   o_hGrab = None, o_vGrab = Some True \<rparr>
          else None),
       boundsData = \<lparr> bd_bounds = Some \<lparr> b_x = 0, b_y = 0, b_width = w, b_height = h \<rparr>,
                      bd_boundsChanged = False \<rparr> \<rparr>"

definition example_container ::
  "VBoxLayoutOptionsExt \<Rightarrow> Dimension option \<Rightarrow> SChildElement list \<Rightarrow> LayoutContainer" where
  "example_container options pref children =
     \<lparr> c_bounds = \<lparr> b_x = 0, b_y = 0, b_width = 0, b_height = 0 \<rparr>,
       c_layoutData = Some \<lparr> prefSize = pref \<rparr>,
       c_options = options,
       c_children = children,
       c_boundsData = \<lparr> bd_bounds = None, bd_boundsChanged = False \<rparr> \<rparr>"

text \<open>
  A container of fixed size 8 x 40 that is not resized, with one grabbing child of height
  10: the padding of 5 on each side leaves no usable width.
\<close>

definition narrow_container :: LayoutContainer where
  "narrow_container =
     example_container (getDefaultLayoutOptions\<lparr> resizeContainer := False \<rparr>)
       (Some \<lparr> dim_width = 8, dim_height = 40 \<rparr>) [example_child 6 10 True]"

text \<open>
  A container of preferred size 100 x 67 with the default options and three children of
  heights 10, 20 and 5, the first and the last grabbing.
\<close>

definition two_grabbing_container :: LayoutContainer where
  "two_grabbing_container =
     example_container getDefaultLayoutOptions (Some \<lparr> dim_width = 100, dim_height = 67 \<rparr>)
       [example_child 50 10 True, example_child 50 20 False, example_child 50 5 True]"

text \<open>
  A container of preferred size 100 x 61 with the default options (gap 1, padding 5) and
  two children of heights 10 and 20, the first grabbing.
\<close>

definition grab_first_container :: LayoutContainer where
  "grab_first_container =
     example_container getDefaultLayoutOptions (Some \<lparr> dim_width = 100, dim_height = 61 \<rparr>)
       [example_child 50 10 True, example_child 50 20 False]"

text \<open>
  A container of preferred size 100 x 41 with the default options and two grabbing
  children, the second of which has no bounds in the bounds data table.
\<close>

definition skipped_grab_container :: LayoutContainer where
  "skipped_grab_container =
     example_container getDefaultLayoutOptions (Some \<lparr> dim_width = 100, dim_height = 41 \<rparr>)
       [example_child 50 10 True,
        (example_child 50 10 True)
          \<lparr> boundsData := \<lparr> bd_bounds = None, bd_boundsChanged = False \<rparr> \<rparr>]"

text \<open>A container without preferred size that is not resized, without children.\<close>

definition fixed_empty_container :: LayoutContainer where
  "fixed_empty_container =
     example_container (getDefaultLayoutOptions\<lparr> resizeContainer := False \<rparr>) None []"

text \<open>
  A container with the default options and preferred size 100 x 50 whose only child is
  not layoutable.
\<close>

definition unlayoutable_container :: LayoutContainer where
  "unlayoutable_container =
     example_container getDefaultLayoutOptions (Some \<lparr> dim_width = 100, dim_height = 50 \<rparr>)
       [(example_child 50 10 False)\<lparr> layoutableChild := False \<rparr>]"

text \<open>Three model elements, their root, and actions on them.\<close>

definition el_a :: SModelElement where
  "el_a = \<lparr> e_id = ''a'', e_bounds = \<lparr> b_x = 0, b_y = 0, b_width = 10, b_height = 10 \<rparr> \<rparr>"

definition el_b :: SModelElement where
  "el_b = \<lparr> e_id = ''b'', e_bounds = \<lparr> b_x = 20, b_y = 5, b_width = 30, b_height = 20 \<rparr> \<rparr>"

definition el_c :: SModelElement where
  "el_c = \<lparr> e_id = ''c'', e_bounds = \<lparr> b_x = 7, b_y = 50, b_width = 20, b_height = 15 \<rparr> \<rparr>"

definition example_root :: SModelRoot where
  "example_root = \<lparr> getById = [''a'' \<mapsto> el_a, ''b'' \<mapsto> el_b, ''c'' \<mapsto> el_c] \<rparr>"

definition resize_all_action :: ResizeElementsAction where
  "resize_all_action =
     \<lparr> ra_elementIds = [''a'', ''b'', ''c''], ra_dimension = Width,
       ra_reductionFunction = Reduce_max \<rparr>"

text \<open>An action that names one known and one unknown element.\<close>

definition resize_one_action :: ResizeElementsAction where
  "resize_one_action =
     \<lparr> ra_elementIds = [''a'', ''zz''], ra_dimension = Width,
       ra_reductionFunction = Reduce_max \<rparr>"

text \<open>An action without ids: the elements are those of the selection.\<close>

definition align_selection_action :: AlignElementsAction where
  "align_selection_action =
     \<lparr> aa_elementIds = [], aa_alignment = Left, aa_selectionFunction = Select_last \<rparr>"

text \<open>A restrictor that rejects every change of the element \<open>b\<close>.\<close>

definition pin_b :: "SModelElement \<Rightarrow> ElementAndBounds \<Rightarrow> bool" where
  "pin_b element bounds = (e_id element \<noteq> ''b'')"

text \<open>The reading order of the three elements, each its own bounds aware parent.\<close>

definition reading_order :: "SModelElement \<Rightarrow> SModelElement \<Rightarrow> real" where
  "reading_order = LeftToRightTopToBottomComparator_compare (\<lambda>element. Some (e_bounds element))"

text \<open>Three markers, collected in an order that is not the reading order.\<close>

definition three_markers :: "SModelElement list" where
  "three_markers = [el_c, el_a, el_b]"

section \<open>Auxiliary facts\<close>

subsection \<open>Lists, reductions and indices\<close>

declare getNextIndex_loop.simps [simp del]

lemma map_filter_all_Some:
  "(\<And>a. a \<in> set xs \<Longrightarrow> f a = Some (g a)) \<Longrightarrow> List.map_filter f xs = map g xs"
  by (induction xs) (simp_all add: List.map_filter_simps)

lemma map_filter_Some: "List.map_filter (\<lambda>a. Some (g a)) xs = map g xs"
  by (simp add: map_filter_all_Some)

lemma map_filter_subseq:
  "\<exists>kept. subseq kept xs \<and> List.map_filter f xs = map (\<lambda>a. the (f a)) kept
      \<and> (\<forall>a\<in>set kept. f a \<noteq> None)"
proof (induction xs)
  case Nil
  show ?case by (simp add: List.map_filter_simps)
next
  case (Cons a xs)
  then obtain kept where k: "subseq kept xs" "List.map_filter f xs = map (\<lambda>a. the (f a)) kept"
      "\<forall>a\<in>set kept. f a \<noteq> None"
    by blast
  show ?case
  proof (cases "f a")
    case None
    then have "subseq kept (a # xs) \<and> List.map_filter f (a # xs) = map (\<lambda>a. the (f a)) kept
        \<and> (\<forall>a\<in>set kept. f a \<noteq> None)"
      using k by (simp add: List.map_filter_simps list_emb_Cons)
    then show ?thesis by blast
  next
    case (Some b)
    then have "subseq (a # kept) (a # xs)
        \<and> List.map_filter f (a # xs) = map (\<lambda>a. the (f a)) (a # kept)
        \<and> (\<forall>a\<in>set (a # kept). f a \<noteq> None)"
      using k by (simp add: List.map_filter_simps)
    then show ?thesis by blast
  qed
qed

lemma Reduce_max_eq_Max: "vs \<noteq> [] \<Longrightarrow> Reduce_max vs = Max (set vs)"
proof (cases vs)
  case Nil
  assume "vs \<noteq> []"
  with Nil show ?thesis by simp
next
  case (Cons v ws)
  then show ?thesis
    using Max.set_eq_fold [of v ws] by simp
qed

lemma js_reduce_min_eq_Min: "vs \<noteq> [] \<Longrightarrow> js_reduce min vs = Inr (Min (set vs))"
proof (cases vs)
  case Nil
  assume "vs \<noteq> []"
  with Nil show ?thesis by simp
next
  case (Cons v ws)
  have "(\<lambda>(b::'a) a. min a b) = min"
    by (intro ext) (simp add: min.commute)
  then have "foldl min v ws = fold min ws v"
    by (simp add: foldl_conv_fold)
  with Cons show ?thesis
    using Min.set_eq_fold [of v ws] by simp
qed

lemma map_bounds_Some: "map_bounds g (map Some es) = Inr (map (\<lambda>e. g (e_bounds e)) es)"
  by (induction es) simp_all

lemma selected_map_Some: "{e. Some e \<in> set (map Some cs)} = set cs"
  by auto

lemma sum_list_indicator:
  "sum_list (map (\<lambda>c. if P c then k else 0) cs) = real (length (filter P cs)) * (k::real)"
  by (induction cs) (simp_all add: algebra_simps)

lemma map2_diff_map:
  "length ys = length xs \<Longrightarrow>
   map2 (\<lambda>b a. f a - f b) xs ys = map2 (\<lambda>u v. v - u) (map f xs) (map f ys)"
  by (induction xs ys rule: list_induct2') simp_all

lemma smod_small: "0 \<le> k \<Longrightarrow> k < l \<Longrightarrow> k smod l = (k::int)"
  by (cases "k = 0") (simp_all add: signed_modulo_int_def)

lemma js_index_rem_in_range:
  "0 \<le> k \<Longrightarrow> k < int (length xs) \<Longrightarrow> js_index xs (js_rem k (int (length xs))) = Some (xs ! nat k)"
  by (auto simp: js_index_def js_rem_def smod_small)

subsection \<open>The index search of the marker navigator\<close>

lemma getNextIndex_loop_range:
  "markers \<noteq> [] \<Longrightarrow> 0 \<le> getNextIndex_loop cmp current markers index
     \<and> getNextIndex_loop cmp current markers index < int (length markers)"
proof (induction cmp current markers index rule: getNextIndex_loop.induct)
  case (1 cmp current markers index)
  have step: "getNextIndex_loop cmp current markers index =
     (if index < length markers then
        (if cmp (markers ! index) current > 0 then int index
         else getNextIndex_loop cmp current markers (index + 1))
      else 0)"
    by (rule getNextIndex_loop.simps)
  show ?case
  proof (cases "index < length markers \<and> \<not> cmp (markers ! index) current > 0")
    case True
    then show ?thesis using step "1.IH" "1.prems" by simp
  next
    case False
    then show ?thesis using step "1.prems" by auto
  qed
qed

lemma getNextIndex_loop_none:
  "\<forall>m\<in>set markers. cmp m current \<le> 0 \<Longrightarrow> getNextIndex_loop cmp current markers index = 0"
proof (induction cmp current markers index rule: getNextIndex_loop.induct)
  case (1 cmp current markers index)
  have step: "getNextIndex_loop cmp current markers index =
     (if index < length markers then
        (if cmp (markers ! index) current > 0 then int index
         else getNextIndex_loop cmp current markers (index + 1))
      else 0)"
    by (rule getNextIndex_loop.simps)
  show ?case
  proof (cases "index < length markers")
    case True
    then have "markers ! index \<in> set markers" by simp
    then have no: "\<not> cmp (markers ! index) current > 0"
      using "1.prems" by fastforce
    then have "getNextIndex_loop cmp current markers (index + 1) = 0"
      using True "1.IH" "1.prems" by blast
    then show ?thesis
      using step True no by (simp only: if_True if_False)
  next
    case False
    then show ?thesis using step by (simp only: if_False)
  qed
qed

lemma getPreviousIndex_loop_range:
  "markers \<noteq> [] \<Longrightarrow> n \<le> length markers \<Longrightarrow>
     0 \<le> getPreviousIndex_loop cmp current markers n
     \<and> getPreviousIndex_loop cmp current markers n < int (length markers)"
  by (induction n) auto

lemma getPreviousIndex_loop_none:
  "\<forall>m\<in>set markers. cmp m current \<ge> 0 \<Longrightarrow> n \<le> length markers \<Longrightarrow>
     getPreviousIndex_loop cmp current markers n = int (length markers) - 1"
proof (induction n)
  case 0
  then show ?case by simp
next
  case (Suc n)
  then have "markers ! n \<in> set markers" by simp
  then have no: "\<not> cmp (markers ! n) current < 0"
    using Suc.prems by fastforce
  have "getPreviousIndex_loop cmp current markers n = int (length markers) - 1"
    using Suc by simp
  then show ?case
    using no by (simp only: getPreviousIndex_loop.simps if_False)
qed

subsection \<open>The commands\<close>

lemma toValidElementAndBounds_accept:
  assumes "\<forall>validate. movementRestrictor = Some validate \<longrightarrow> (\<forall>e b. validate e b)"
  shows "toValidElementAndBounds element bounds movementRestrictor = Some bounds"
proof (cases movementRestrictor)
  case None
  then show ?thesis by (simp add: toValidElementAndBounds_def)
next
  case (Some validate)
  then have "validate element bounds" using assms by blast
  with Some show ?thesis by (simp add: toValidElementAndBounds_def)
qed

lemma toValidElementMove_accept:
  assumes "\<forall>validate. movementRestrictor = Some validate \<longrightarrow> (\<forall>e m. validate e m)"
  shows "toValidElementMove element move movementRestrictor = Some move"
proof (cases movementRestrictor)
  case None
  then show ?thesis by (simp add: toValidElementMove_def)
next
  case (Some validate)
  then have "validate element move" using assms by blast
  with Some show ?thesis by (simp add: toValidElementMove_def)
qed

lemma toValidElementAndBounds_Some:
  "toValidElementAndBounds element bounds movementRestrictor = Some b \<Longrightarrow> b = bounds"
  by (cases movementRestrictor) (simp_all add: toValidElementAndBounds_def split: if_splits)

lemma dispatchAlignActions_loop_accept:
  assumes "\<And>element. createElementMove movementRestrictor element change = Some (mv element)"
  shows "dispatchAlignActions_loop movementRestrictor change elements =
           (map mv elements, map (\<lambda>element. align_createElementAndBounds element (mv element)) elements)"
  by (induction elements) (simp_all add: assms)

lemma alignLeft_selected:
  assumes "aa_selectionFunction action elements = map Some cs" and "cs \<noteq> []"
    and "\<forall>validate. movementRestrictor = Some validate \<longrightarrow> (\<forall>e m. validate e m)"
  shows "\<exists>moves ebs.
           alignLeft movementRestrictor action elements
             = Inr [MoveAction moves, ChangeBoundsOperation ebs]
         \<and> list_all2 (\<lambda>element m.
               em_elementId m = e_id element
             \<and> pt_x (em_toPosition m) = Min ((\<lambda>e. b_x (e_bounds e)) ` set cs)
             \<and> pt_y (em_toPosition m) = b_y (e_bounds element)) elements moves
         \<and> list_all2 (\<lambda>element b.
               eb_elementId b = e_id element
             \<and> pt_x (eb_newPosition b) = Min ((\<lambda>e. b_x (e_bounds e)) ` set cs)) elements ebs"
proof -
  define minX where "minX = Min ((\<lambda>e. b_x (e_bounds e)) ` set cs)"
  define change :: "SModelElement \<Rightarrow> ElementMove \<Rightarrow> ElementMove"
    where "change = (\<lambda>_ move. move\<lparr> em_toPosition := (em_toPosition move)\<lparr> pt_x := minX \<rparr> \<rparr>)"
  define mv :: "SModelElement \<Rightarrow> ElementMove" where "mv = (\<lambda>element.
      \<lparr> em_elementId = e_id element,
        em_fromPosition = \<lparr> pt_x = b_x (e_bounds element), pt_y = b_y (e_bounds element) \<rparr>,
        em_toPosition = \<lparr> pt_x = minX, pt_y = b_y (e_bounds element) \<rparr> \<rparr>)"
  have acc: "toValidElementMove element move movementRestrictor = Some move" for element move
    by (rule toValidElementMove_accept) (rule assms(3))
  have cem: "createElementMove movementRestrictor element change = Some (mv element)" for element
    by (simp add: createElementMove_def acc change_def mv_def)
  have "map (\<lambda>e. b_x (e_bounds e)) cs \<noteq> []"
    using assms(2) by simp
  then have red: "js_reduce min (map (\<lambda>e. b_x (e_bounds e)) cs) = Inr minX"
    using js_reduce_min_eq_Min [of "map (\<lambda>e. b_x (e_bounds e)) cs"] by (simp add: minX_def)
  have "alignLeft movementRestrictor action elements
          = Inr [MoveAction (map mv elements),
                 ChangeBoundsOperation
                   (map (\<lambda>element. align_createElementAndBounds element (mv element)) elements)]"
    using dispatchAlignActions_loop_accept [of movementRestrictor change mv elements, OF cem]
    by (simp add: alignLeft_def assms(1) map_bounds_Some red dispatchAlignActions_def
          change_def [symmetric])
  moreover have "list_all2 (\<lambda>element m.
               em_elementId m = e_id element
             \<and> pt_x (em_toPosition m) = minX
             \<and> pt_y (em_toPosition m) = b_y (e_bounds element)) elements (map mv elements)"
    unfolding list_all2_map2 list_all2_same by (simp add: mv_def)
  moreover have "list_all2 (\<lambda>element b.
               eb_elementId b = e_id element
             \<and> pt_x (eb_newPosition b) = minX) elements
           (map (\<lambda>element. align_createElementAndBounds element (mv element)) elements)"
    unfolding list_all2_map2 list_all2_same
    by (simp add: mv_def align_createElementAndBounds_def)
  ultimately show ?thesis
    unfolding minX_def by blast
qed

lemma Select_cases:
  assumes "elements \<noteq> []"
    and "sel = Select_all \<or> sel = Select_first \<or> sel = Select_last"
  shows "\<exists>cs. sel elements = map Some cs \<and> cs \<noteq> [] \<and> set cs \<subseteq> set elements"
proof -
  have "Select_all elements = map Some elements"
    by (simp add: Select_all_def)
  moreover have "Select_first elements = map Some [hd elements]"
    using assms(1) by (cases elements) (simp_all add: Select_first_def)
  moreover have "Select_last elements = map Some [last elements]"
    using assms(1) by (simp add: Select_last_def)
  moreover have "set [hd elements] \<subseteq> set elements" "set [last elements] \<subseteq> set elements"
    using assms(1) by simp_all
  ultimately show ?thesis
    using assms by (metis list.distinct(1) order_refl)
qed

subsection \<open>The layouter\<close>

lemma layoutChild_result:
  "layoutChild bounds childOptions containerOptions currentOffset maxWidth maxHeight (Some g) (Some n) =
     (\<lparr> bd_bounds = Some
          \<lparr> b_x = pt_x currentOffset, b_y = pt_y currentOffset,
            b_width = (if hGrab childOptions then maxWidth else b_width bounds),
            b_height = (if vGrab childOptions \<and> g \<noteq> 0 \<and> n \<noteq> 0
                        then b_height bounds + g / real n else b_height bounds) \<rparr>,
        bd_boundsChanged = True \<rparr>,
      \<lparr> pt_x = pt_x currentOffset,
        pt_y = (if vGrab childOptions \<and> g \<noteq> 0 \<and> n \<noteq> 0
                then pt_y currentOffset + (b_height bounds + g / real n)
                else pt_y currentOffset + b_height bounds + vGap containerOptions) \<rparr>)"
  by (simp add: layoutChild_def super_layoutChild_def Let_def)

lemma layoutChildren_loop_skip:
  "\<not> hasValidBounds child \<Longrightarrow>
   layoutChildren_loop containerOptions maxWidth maxHeight grabHeight grabbingChildren
     (child # rest) currentOffset =
   (child # fst (layoutChildren_loop containerOptions maxWidth maxHeight grabHeight
                   grabbingChildren rest currentOffset),
    snd (layoutChildren_loop containerOptions maxWidth maxHeight grabHeight
           grabbingChildren rest currentOffset))"
  by (auto simp: hasValidBounds_def split: option.splits prod.splits)

lemma layoutChildren_loop_place:
  assumes "layoutableChild child" and "bd_bounds (boundsData child) = Some bounds"
    and "isValidDimension bounds"
    and "layoutChild bounds (getChildLayoutOptions child containerOptions) containerOptions
           currentOffset maxWidth maxHeight grabHeight grabbingChildren = (bd, offset)"
  shows "layoutChildren_loop containerOptions maxWidth maxHeight grabHeight grabbingChildren
           (child # rest) currentOffset =
         (child\<lparr> boundsData := bd \<rparr>
            # fst (layoutChildren_loop containerOptions maxWidth maxHeight grabHeight
                     grabbingChildren rest offset),
          snd (layoutChildren_loop containerOptions maxWidth maxHeight grabHeight
                 grabbingChildren rest offset))"
  using assms by (simp split: prod.splits)

lemma layoutChildren_loop_heights:
  "map childHeight
     (fst (layoutChildren_loop containerOptions maxWidth maxHeight (Some g) (Some n) cs currentOffset))
   = map (\<lambda>child. if hasValidBounds child \<and> vGrab (getChildLayoutOptions child containerOptions)
                       \<and> g \<noteq> 0 \<and> n \<noteq> 0
                    then childHeight child + g / real n else childHeight child) cs"
proof (induction cs arbitrary: currentOffset)
  case Nil
  show ?case by simp
next
  case (Cons child rest)
  show ?case
  proof (cases "hasValidBounds child")
    case False
    then show ?thesis
      using Cons.IH [of currentOffset]
      by (simp only: layoutChildren_loop_skip fst_conv list.map if_False simp_thms)
  next
    case True
    then obtain bounds where b: "layoutableChild child" "bd_bounds (boundsData child) = Some bounds"
        "isValidDimension bounds"
      by (auto simp: hasValidBounds_def split: option.splits)
    obtain bd offset where lc:
      "layoutChild bounds (getChildLayoutOptions child containerOptions) containerOptions
         currentOffset maxWidth maxHeight (Some g) (Some n) = (bd, offset)"
      by (cases "layoutChild bounds (getChildLayoutOptions child containerOptions) containerOptions
         currentOffset maxWidth maxHeight (Some g) (Some n)")
    then have h: "childHeight (child\<lparr> boundsData := bd \<rparr>) =
        (if vGrab (getChildLayoutOptions child containerOptions) \<and> g \<noteq> 0 \<and> n \<noteq> 0
         then childHeight child + g / real n else childHeight child)"
      using b(2) by (auto simp: layoutChild_result childHeight_def)
    show ?thesis
      using True h Cons.IH [of offset]
      by (simp only: layoutChildren_loop_place [OF b lc] fst_conv list.map simp_thms)
  qed
qed

lemma layoutChildren_loop_length:
  "length (fst (layoutChildren_loop containerOptions maxWidth maxHeight grabHeight grabbingChildren
                  cs currentOffset)) = length cs"
proof (induction cs arbitrary: currentOffset)
  case Nil
  show ?case by simp
next
  case (Cons child rest)
  show ?case
  proof (cases "hasValidBounds child")
    case False
    show ?thesis
      unfolding layoutChildren_loop_skip [OF False] by (simp add: Cons.IH)
  next
    case True
    then obtain bounds where b: "layoutableChild child" "bd_bounds (boundsData child) = Some bounds"
        "isValidDimension bounds"
      by (auto simp: hasValidBounds_def split: option.splits)
    obtain bd offset where lc:
      "layoutChild bounds (getChildLayoutOptions child containerOptions) containerOptions
         currentOffset maxWidth maxHeight grabHeight grabbingChildren = (bd, offset)"
      by (cases "layoutChild bounds (getChildLayoutOptions child containerOptions) containerOptions
         currentOffset maxWidth maxHeight grabHeight grabbingChildren")
    show ?thesis
      unfolding layoutChildren_loop_place [OF b lc] by (simp add: Cons.IH)
  qed
qed

lemma getChildrenSize_fold_skip:
  "\<forall>child\<in>set cs. \<not> hasValidBounds child \<Longrightarrow>
   fold (getChildrenSize_step containerOptions) cs st = st"
proof (induction cs arbitrary: st)
  case Nil
  show ?case by simp
next
  case (Cons child rest)
  then have "\<not> hasValidBounds child" by simp
  then have "getChildrenSize_step containerOptions child st = st"
    by (cases st) (auto simp: getChildrenSize_step_def hasValidBounds_def split: option.splits)
  with Cons show ?case by simp
qed

text \<open>
  The definitions of the layouter, to evaluate a pass on a given container, and those of
  the example elements and their root.
\<close>

lemmas layout_defs = layout_def layout_maxWidth_def layout_maxHeight_def layout_grabHeight_def
  layout_grabbingChildren_def layoutChildren_def layoutChild_def super_layoutChild_def
  getChildrenSize_def getChildrenSize_step_def getFixedContainerBounds_def
  getFinalContainerBounds_def getChildLayoutOptions_def spread_def isValidDimension_def
  getDefaultLayoutOptions_def Let_def

lemmas example_defs = example_root_def el_a_def el_b_def el_c_def getActionElements_def

section \<open>Properties of the layouter\<close>

text \<open>
  Claim C1, as amended. A layout pass places children only when it commits, that is when
  the usable width and the usable height are both positive. For every pass that commits,
  in which at least one child has the \<open>vGrab\<close> flag and every child with the flag is a
  layoutable child with valid bounds: each child with the flag gets the additional
  height \<open>grabHeight / grabbingChildren\<close>, and the extra heights granted add up to
  \<open>grabHeight = maxHeight - childrenSize.height\<close> within floating-point tolerance. The
  numbers of the model are exact reals, so the theorem states the sum without rounding
  error: there it is equal to \<open>grabHeight\<close>. It also states that a child without the flag
  keeps its height.
\<close>

theorem grab_distribution:
  assumes "layout_maxWidth EMPTY_BOUNDS container > 0"
    and "layout_maxHeight EMPTY_BOUNDS container > 0"
    and "layout_grabbingChildren container > 0"
    and "\<forall>child\<in>set (c_children container).
           vGrab (getChildLayoutOptions child (c_options container)) \<longrightarrow> hasValidBounds child"
  shows "list_all2 (\<lambda>before after.
             childHeight after = childHeight before +
               (if vGrab (getChildLayoutOptions before (c_options container))
                then layout_grabHeight EMPTY_BOUNDS container
                       / real (layout_grabbingChildren container)
                else 0))
           (c_children container) (c_children (layout EMPTY_BOUNDS container))
       \<and> sum_list (grantedExtra (c_children container) (c_children (layout EMPTY_BOUNDS container)))
           = layout_grabHeight EMPTY_BOUNDS container"
proof -
  define cs where "cs = c_children container"
  define opts where "opts = c_options container"
  define g where "g = layout_grabHeight EMPTY_BOUNDS container"
  define n where "n = layout_grabbingChildren container"
  define grabs where "grabs = (\<lambda>child. vGrab (getChildLayoutOptions child opts))"
  define cs' where "cs' = fst (layoutChildren container opts
      (layout_maxWidth EMPTY_BOUNDS container) (layout_maxHeight EMPTY_BOUNDS container)
      (Some g) (Some n))"
  have out: "c_children (layout EMPTY_BOUNDS container) = cs'"
    using assms(1,2)
    by (simp add: layout_def Let_def cs'_def opts_def g_def n_def split: prod.splits)
  have n: "n = length (filter grabs cs)" "n \<noteq> 0"
    using assms(3)
    by (simp_all add: n_def layout_grabbingChildren_def filter_map grabs_def opts_def cs_def comp_def)
  have len: "length cs' = length cs"
    by (simp add: cs'_def layoutChildren_def layoutChildren_loop_length cs_def)
  have valid: "hasValidBounds child" if "child \<in> set cs" "grabs child" for child
    using that assms(4) by (simp add: cs_def grabs_def opts_def)
  have "map childHeight cs' =
      map (\<lambda>child. if hasValidBounds child \<and> grabs child \<and> g \<noteq> 0 \<and> n \<noteq> 0
                    then childHeight child + g / real n else childHeight child) cs"
    by (simp add: cs'_def layoutChildren_def layoutChildren_loop_heights cs_def grabs_def)
  also have "\<dots> = map (\<lambda>child. childHeight child + (if grabs child then g / real n else 0)) cs"
    using valid n(2) by (intro map_cong) auto
  finally have heights:
    "map childHeight cs' = map (\<lambda>child. childHeight child + (if grabs child then g / real n else 0)) cs" .
  have each: "list_all2 (\<lambda>before after.
      childHeight after = childHeight before + (if grabs before then g / real n else 0)) cs cs'"
  proof (rule list_all2_all_nthI)
    show "length cs = length cs'" using len by simp
  next
    fix i assume i: "i < length cs"
    then have "map childHeight cs' ! i = childHeight (cs' ! i)"
      using len by simp
    then show "childHeight (cs' ! i) = childHeight (cs ! i) + (if grabs (cs ! i) then g / real n else 0)"
      using heights i by simp
  qed
  have "grantedExtra cs cs' = map2 (\<lambda>u v. v - u) (map childHeight cs) (map childHeight cs')"
    unfolding grantedExtra_def using len by (rule map2_diff_map)
  also have "\<dots> = map (\<lambda>child. if grabs child then g / real n else 0) cs"
    unfolding heights by (induction cs) simp_all
  finally have "sum_list (grantedExtra cs cs') = real n * (g / real n)"
    by (simp add: sum_list_indicator n(1))
  then have total: "sum_list (grantedExtra cs cs') = g"
    using n(2) by simp
  show ?thesis
    using each total unfolding out cs_def [symmetric] g_def [symmetric] n_def [symmetric]
      grabs_def opts_def by simp
qed

text \<open>
  The pass on the container of size 100 x 67: the free height is 20, the two grabbing
  children get 10 each.
\<close>

theorem grab_distribution_witness:
  "layout_maxWidth example_EMPTY_BOUNDS two_grabbing_container > 0
   \<and> layout_maxHeight example_EMPTY_BOUNDS two_grabbing_container > 0
   \<and> layout_grabbingChildren two_grabbing_container = 2
   \<and> layout_grabHeight example_EMPTY_BOUNDS two_grabbing_container = 20
   \<and> sum_list (grantedExtra (c_children two_grabbing_container)
                 (c_children (layout example_EMPTY_BOUNDS two_grabbing_container))) = 20"
proof -
  have h1: "layout_maxWidth example_EMPTY_BOUNDS two_grabbing_container > 0"
    by (simp add: two_grabbing_container_def example_container_def example_child_def layout_defs)
  have h2: "layout_maxHeight example_EMPTY_BOUNDS two_grabbing_container > 0"
    by (simp add: two_grabbing_container_def example_container_def example_child_def layout_defs)
  have n: "layout_grabbingChildren two_grabbing_container = 2"
    by (simp add: two_grabbing_container_def example_container_def example_child_def layout_defs)
  then have h3: "layout_grabbingChildren two_grabbing_container > 0"
    by simp
  have h4: "\<forall>child\<in>set (c_children two_grabbing_container).
      vGrab (getChildLayoutOptions child (c_options two_grabbing_container)) \<longrightarrow> hasValidBounds child"
    by (simp add: two_grabbing_container_def example_container_def example_child_def layout_defs
          hasValidBounds_def)
  have g: "layout_grabHeight example_EMPTY_BOUNDS two_grabbing_container = 20"
    by (simp add: two_grabbing_container_def example_container_def example_child_def layout_defs)
  show ?thesis
    using h1 h2 n g grab_distribution [OF h1 h2 h3 h4] by simp
qed

text \<open>
  Without the restriction to passes that commit the statement fails: the narrow
  container has a grabbing child and a free height of 20, but no usable width, so the
  pass places nothing and grants nothing.
\<close>

theorem grab_distribution_counterexample:
  "layout_grabbingChildren narrow_container > 0
   \<and> layout_grabHeight example_EMPTY_BOUNDS narrow_container = 20
   \<and> sum_list (grantedExtra (c_children narrow_container)
                 (c_children (layout example_EMPTY_BOUNDS narrow_container))) = 0
   \<and> sum_list (grantedExtra (c_children narrow_container)
                 (c_children (layout example_EMPTY_BOUNDS narrow_container)))
       \<noteq> layout_grabHeight example_EMPTY_BOUNDS narrow_container"
  by (simp add: narrow_container_def example_container_def example_child_def layout_defs
        grantedExtra_def childHeight_def)

text \<open>
  The count \<open>grabbingChildren\<close> is taken over all children with the flag, also over those
  that the pass skips. In a pass that commits, a grabbing child without bounds is counted
  and gets nothing: of the free height 21 only one half is granted.
\<close>

lemma skipped_grabbing_child_example:
  "layout_maxWidth example_EMPTY_BOUNDS skipped_grab_container > 0
   \<and> layout_maxHeight example_EMPTY_BOUNDS skipped_grab_container > 0
   \<and> layout_grabbingChildren skipped_grab_container = 2
   \<and> layout_grabHeight example_EMPTY_BOUNDS skipped_grab_container = 21
   \<and> grantedExtra (c_children skipped_grab_container)
         (c_children (layout example_EMPTY_BOUNDS skipped_grab_container)) = [21 / 2, 0]"
  by (simp add: skipped_grab_container_def example_container_def example_child_def layout_defs
        grantedExtra_def childHeight_def)

text \<open>
  Claim C2: the running offset advances by the height of the placed child plus the gap,
  also after a child whose height was grab-adjusted. The pass on the container of size
  100 x 61 shows what \<open>layoutChild\<close> does after a grab-adjusted child: the first child
  is placed at 5 and grows from 10 to 30, and the second child is placed at 35, which is
  5 + 30 without the gap of 1.
\<close>

theorem grabbed_child_drops_gap:
  "vGap (c_options grab_first_container) = 1
   \<and> verticalGeometry (layout example_EMPTY_BOUNDS grab_first_container)
       = [Some (5, 30), Some (35, 20)]"
  by (simp add: grab_first_container_def example_container_def example_child_def layout_defs
        verticalGeometry_def)

text \<open>
  Claim C3, as amended. For every container with \<open>resizeContainer = false\<close> and fixed
  size \<open>S\<close>, the usable interior on each axis is
  \<open>paddingFactor * max(0, S - padding)\<close>, so it never exceeds that value, whatever
  children the container has.
\<close>

theorem fixed_usable_interior:
  assumes "\<not> resizeContainer (c_options container)"
  shows "layout_maxWidth EMPTY_BOUNDS (container\<lparr> c_children := cs \<rparr>)
           = paddingFactor (c_options container)
               * max 0 (b_width (getFixedContainerBounds EMPTY_BOUNDS container)
                          - paddingLeft (c_options container) - paddingRight (c_options container))
       \<and> layout_maxHeight EMPTY_BOUNDS (container\<lparr> c_children := cs \<rparr>)
           = paddingFactor (c_options container)
               * max 0 (b_height (getFixedContainerBounds EMPTY_BOUNDS container)
                          - paddingTop (c_options container) - paddingBottom (c_options container))"
proof -
  have "getFixedContainerBounds EMPTY_BOUNDS (container\<lparr> c_children := cs \<rparr>)
      = getFixedContainerBounds EMPTY_BOUNDS container"
    by (simp add: getFixedContainerBounds_def split: option.splits)
  then show ?thesis
    using assms by (simp add: layout_maxWidth_def layout_maxHeight_def Let_def)
qed

text \<open>
  The narrow container (8 x 40, padding 5 on each side) with the three children of
  another container: the usable interior is 0 x 30.
\<close>

theorem fixed_usable_interior_witness:
  "\<not> resizeContainer (c_options narrow_container)
   \<and> layout_maxWidth example_EMPTY_BOUNDS
       (narrow_container\<lparr> c_children := c_children two_grabbing_container \<rparr>) = 0
   \<and> layout_maxHeight example_EMPTY_BOUNDS
       (narrow_container\<lparr> c_children := c_children two_grabbing_container \<rparr>) = 30"
proof -
  have h: "\<not> resizeContainer (c_options narrow_container)"
    by (simp add: narrow_container_def example_container_def example_child_def layout_defs)
  show ?thesis
    using h fixed_usable_interior [OF h, of example_EMPTY_BOUNDS "c_children two_grabbing_container"]
    by (simp add: narrow_container_def example_container_def getDefaultLayoutOptions_def
          getFixedContainerBounds_def)
qed

text \<open>
  The bound \<open>paddingFactor * (S - padding)\<close> itself fails where the padding exceeds the
  fixed size: a container without preferred size has \<open>S = 0\<close>, the usable width is 0
  and the bound is -10.
\<close>

theorem fixed_usable_interior_counterexample:
  "\<not> resizeContainer (c_options fixed_empty_container)
   \<and> paddingFactor (c_options fixed_empty_container) > 0
   \<and> \<not> layout_maxWidth example_EMPTY_BOUNDS fixed_empty_container
         \<le> paddingFactor (c_options fixed_empty_container)
             * (b_width (getFixedContainerBounds example_EMPTY_BOUNDS fixed_empty_container)
                  - paddingLeft (c_options fixed_empty_container)
                  - paddingRight (c_options fixed_empty_container))"
  by (simp add: fixed_empty_container_def example_container_def example_child_def layout_defs)

text \<open>
  Claim C10. When no child of the container is a layoutable child with valid bounds,
  \<open>getChildrenSize\<close> returns the width -1 and the height 0, and with
  \<open>resizeContainer = true\<close> the usable interior is computed from
  \<open>max(fixedSize.width - padding, -1)\<close> and \<open>max(fixedSize.height - padding, 0)\<close>.
\<close>

theorem empty_children_size_sentinel:
  assumes "\<forall>child\<in>set (c_children container). \<not> hasValidBounds child"
  shows "getChildrenSize container containerOptions = \<lparr> dim_width = -1, dim_height = 0 \<rparr>
       \<and> (resizeContainer (c_options container) \<longrightarrow>
            layout_maxWidth EMPTY_BOUNDS container
              = paddingFactor (c_options container)
                  * max (b_width (getFixedContainerBounds EMPTY_BOUNDS container)
                           - paddingLeft (c_options container) - paddingRight (c_options container))
                        (-1)
          \<and> layout_maxHeight EMPTY_BOUNDS container
              = paddingFactor (c_options container)
                  * max (b_height (getFixedContainerBounds EMPTY_BOUNDS container)
                           - paddingTop (c_options container) - paddingBottom (c_options container))
                        0)"
proof -
  have size: "getChildrenSize container opts = \<lparr> dim_width = -1, dim_height = 0 \<rparr>" for opts
    using assms by (simp add: getChildrenSize_def getChildrenSize_fold_skip)
  then show ?thesis
    by (simp add: layout_maxWidth_def layout_maxHeight_def Let_def)
qed

text \<open>The container of preferred size 100 x 50 whose only child is not layoutable.\<close>

theorem empty_children_size_sentinel_witness:
  "list_all (\<lambda>child. \<not> hasValidBounds child) (c_children unlayoutable_container)
   \<and> resizeContainer (c_options unlayoutable_container)
   \<and> getChildrenSize unlayoutable_container (c_options unlayoutable_container)
       = \<lparr> dim_width = -1, dim_height = 0 \<rparr>
   \<and> layout_maxWidth example_EMPTY_BOUNDS unlayoutable_container = 90
   \<and> layout_maxHeight example_EMPTY_BOUNDS unlayoutable_container = 40"
proof -
  have h: "\<forall>child\<in>set (c_children unlayoutable_container). \<not> hasValidBounds child"
    by (simp add: unlayoutable_container_def example_container_def hasValidBounds_def)
  have r: "resizeContainer (c_options unlayoutable_container)"
    by (simp add: unlayoutable_container_def example_container_def getDefaultLayoutOptions_def)
  have l: "list_all (\<lambda>child. \<not> hasValidBounds child) (c_children unlayoutable_container)"
    using h by (simp add: list_all_iff)
  show ?thesis
    using l r empty_children_size_sentinel [OF h, of "c_options unlayoutable_container"
        example_EMPTY_BOUNDS]
    by (simp add: unlayoutable_container_def example_container_def getDefaultLayoutOptions_def
          getFixedContainerBounds_def)
qed

section \<open>Properties of the layout commands\<close>

text \<open>
  Claim C4. When \<open>ResizeElementsCommand\<close> runs with dimension \<open>Width\<close> and the reduction
  \<open>Reduce.max\<close> on at least two qualifying elements, and the movement restrictor rejects
  nothing, it dispatches one entry per element, in order; the new width of every entry
  is the maximum of the widths before, the new position is
  \<open>x - 0.5 * (newWidth - width)\<close>, and the centre \<open>x + width / 2\<close> is kept.
\<close>

theorem resize_width_max:
  assumes "getActionElements isResizable selectedElementIDs contextRoot (ra_elementIds action)
             = (elements, ids)"
    and "length elements \<ge> 2"
    and "ra_dimension action = Width"
    and "ra_reductionFunction action = Reduce_max"
    and "\<forall>validate. movementRestrictor = Some validate \<longrightarrow> (\<forall>e b. validate e b)"
  shows "\<exists>ebs.
           dispatched (resize_execute isResizable movementRestrictor selectedElementIDs action contextRoot)
             = [SetBoundsAction ebs, ChangeBoundsOperation ebs]
         \<and> list_all2 (\<lambda>element b.
               eb_elementId b = e_id element
             \<and> dim_width (eb_newSize b) = Max (set (map (\<lambda>e. b_width (e_bounds e)) elements))
             \<and> pt_x (eb_newPosition b)
                 = b_x (e_bounds element) - 0.5 * (dim_width (eb_newSize b) - b_width (e_bounds element))
             \<and> pt_x (eb_newPosition b) + dim_width (eb_newSize b) / 2
                 = b_x (e_bounds element) + b_width (e_bounds element) / 2) elements ebs"
proof -
  define t where "t = Reduce_max (map (\<lambda>element. b_width (e_bounds element)) elements)"
  define g :: "SModelElement \<Rightarrow> ElementAndBounds" where "g = (\<lambda>element.
      \<lparr> eb_elementId = e_id element,
        eb_newPosition = \<lparr> pt_x = b_x (e_bounds element) - 0.5 * (t - b_width (e_bounds element)),
                           pt_y = b_y (e_bounds element) \<rparr>,
        eb_newSize = \<lparr> dim_width = t, dim_height = b_height (e_bounds element) \<rparr> \<rparr>)"
  have ne: "map (\<lambda>element. b_width (e_bounds element)) elements \<noteq> []"
    using assms(2) by auto
  have t: "t = Max (set (map (\<lambda>e. b_width (e_bounds e)) elements))"
    unfolding t_def using ne by (rule Reduce_max_eq_Max)
  have acc: "toValidElementAndBounds element bounds movementRestrictor = Some bounds"
    for element bounds
    by (rule toValidElementAndBounds_accept) (rule assms(5))
  have "dispatched (resize_execute isResizable movementRestrictor selectedElementIDs action contextRoot)
          = [SetBoundsAction (map g elements), ChangeBoundsOperation (map g elements)]"
    using assms(1-4)
    by (simp add: resize_execute_def resizeWidth_def dispatchResizeActions_def
          resize_createElementAndBounds_def acc map_filter_Some Let_def g_def t_def)
  moreover have "list_all2 (\<lambda>element b.
               eb_elementId b = e_id element
             \<and> dim_width (eb_newSize b) = Max (set (map (\<lambda>e. b_width (e_bounds e)) elements))
             \<and> pt_x (eb_newPosition b)
                 = b_x (e_bounds element) - 0.5 * (dim_width (eb_newSize b) - b_width (e_bounds element))
             \<and> pt_x (eb_newPosition b) + dim_width (eb_newSize b) / 2
                 = b_x (e_bounds element) + b_width (e_bounds element) / 2) elements (map g elements)"
    unfolding list_all2_map2 list_all2_same
    using t by (auto simp: g_def field_simps)
  ultimately show ?thesis by blast
qed

text \<open>The three example elements of widths 10, 30 and 20 all get the width 30.\<close>

theorem resize_width_max_witness:
  "getActionElements (\<lambda>element. True) [] example_root (ra_elementIds resize_all_action)
     = ([el_a, el_b, el_c], [''a'', ''b'', ''c''])
   \<and> Max (set (map (\<lambda>e. b_width (e_bounds e)) [el_a, el_b, el_c])) = 30
   \<and> (\<exists>ebs.
        dispatched (resize_execute (\<lambda>element. True) None [] resize_all_action example_root)
          = [SetBoundsAction ebs, ChangeBoundsOperation ebs]
      \<and> list_all2 (\<lambda>element b.
            eb_elementId b = e_id element
          \<and> dim_width (eb_newSize b) = 30
          \<and> pt_x (eb_newPosition b) + dim_width (eb_newSize b) / 2
              = b_x (e_bounds element) + b_width (e_bounds element) / 2) [el_a, el_b, el_c] ebs)"
proof -
  have h1: "getActionElements (\<lambda>element. True) [] example_root (ra_elementIds resize_all_action)
      = ([el_a, el_b, el_c], [''a'', ''b'', ''c''])"
    by (simp add: example_defs resize_all_action_def)
  have h2: "length [el_a, el_b, el_c] \<ge> 2" by simp
  have h3: "ra_dimension resize_all_action = Width"
    by (simp add: resize_all_action_def)
  have h4: "ra_reductionFunction resize_all_action = Reduce_max"
    by (simp add: resize_all_action_def)
  have h5: "\<forall>validate. (None :: (SModelElement \<Rightarrow> ElementAndBounds \<Rightarrow> bool) option) = Some validate
      \<longrightarrow> (\<forall>e b. validate e b)"
    by simp
  have m: "Max (set (map (\<lambda>e. b_width (e_bounds e)) [el_a, el_b, el_c])) = 30"
    by (simp add: el_a_def el_b_def el_c_def)
  obtain ebs where
    "dispatched (resize_execute (\<lambda>element. True) None [] resize_all_action example_root)
          = [SetBoundsAction ebs, ChangeBoundsOperation ebs]"
    "list_all2 (\<lambda>element b.
            eb_elementId b = e_id element
          \<and> dim_width (eb_newSize b) = 30
          \<and> pt_x (eb_newPosition b)
              = b_x (e_bounds element) - 0.5 * (dim_width (eb_newSize b) - b_width (e_bounds element))
          \<and> pt_x (eb_newPosition b) + dim_width (eb_newSize b) / 2
              = b_x (e_bounds element) + b_width (e_bounds element) / 2) [el_a, el_b, el_c] ebs"
    using resize_width_max [OF h1 h2 h3 h4 h5] unfolding m by blast
  then have "\<exists>ebs.
        dispatched (resize_execute (\<lambda>element. True) None [] resize_all_action example_root)
          = [SetBoundsAction ebs, ChangeBoundsOperation ebs]
      \<and> list_all2 (\<lambda>element b.
            eb_elementId b = e_id element
          \<and> dim_width (eb_newSize b) = 30
          \<and> pt_x (eb_newPosition b) + dim_width (eb_newSize b) / 2
              = b_x (e_bounds element) + b_width (e_bounds element) / 2) [el_a, el_b, el_c] ebs"
    by (intro exI [of _ ebs]) (auto elim: list_all2_mono)
  with h1 m show ?thesis by blast
qed

text \<open>
  Claim C5. When \<open>AlignElementsCommand\<close> runs with the alignment \<open>Left\<close> on at least two
  qualifying elements, with one of the selection functions \<open>all\<close>, \<open>first\<close>, \<open>last\<close>, and
  the movement restrictor rejects nothing, it dispatches one move per element, in order,
  and every move sets \<open>toPosition.x\<close> to the minimum of \<open>bounds.x\<close> over the selected
  subset; the entries of the change bounds operation carry the same position.
\<close>

theorem align_left_edges:
  assumes "getActionElements isBoundsAwareMoveable selectedElementIDs contextRoot (aa_elementIds action)
             = (elements, ids)"
    and "length elements \<ge> 2"
    and "aa_alignment action = Left"
    and "aa_selectionFunction action = Select_all \<or> aa_selectionFunction action = Select_first
           \<or> aa_selectionFunction action = Select_last"
    and "\<forall>validate. movementRestrictor = Some validate \<longrightarrow> (\<forall>e m. validate e m)"
  shows "\<exists>moves ebs.
           align_execute isBoundsAwareMoveable movementRestrictor selectedElementIDs action contextRoot
             = Inr \<lparr> returned = contextRoot,
                     dispatched = [MoveAction moves, ChangeBoundsOperation ebs],
                     elementIds_after = ids \<rparr>
         \<and> list_all2 (\<lambda>element m.
               em_elementId m = e_id element
             \<and> pt_x (em_toPosition m)
                 = Min ((\<lambda>e. b_x (e_bounds e)) ` {e. Some e \<in> set (aa_selectionFunction action elements)})
             \<and> pt_y (em_toPosition m) = b_y (e_bounds element)) elements moves
         \<and> list_all2 (\<lambda>element b.
               eb_elementId b = e_id element
             \<and> pt_x (eb_newPosition b)
                 = Min ((\<lambda>e. b_x (e_bounds e)) ` {e. Some e \<in> set (aa_selectionFunction action elements)}))
             elements ebs"
proof -
  have "elements \<noteq> []"
    using assms(2) by auto
  then obtain cs where cs: "aa_selectionFunction action elements = map Some cs" "cs \<noteq> []"
    using Select_cases [OF _ assms(4)] by blast
  have sel: "{e. Some e \<in> set (aa_selectionFunction action elements)} = set cs"
    unfolding cs(1) by (rule selected_map_Some)
  obtain moves ebs where r:
    "alignLeft movementRestrictor action elements = Inr [MoveAction moves, ChangeBoundsOperation ebs]"
    "list_all2 (\<lambda>element m.
               em_elementId m = e_id element
             \<and> pt_x (em_toPosition m) = Min ((\<lambda>e. b_x (e_bounds e)) ` set cs)
             \<and> pt_y (em_toPosition m) = b_y (e_bounds element)) elements moves"
    "list_all2 (\<lambda>element b.
               eb_elementId b = e_id element
             \<and> pt_x (eb_newPosition b) = Min ((\<lambda>e. b_x (e_bounds e)) ` set cs)) elements ebs"
    using alignLeft_selected [OF cs assms(5)] by blast
  have "align_execute isBoundsAwareMoveable movementRestrictor selectedElementIDs action contextRoot
          = Inr \<lparr> returned = contextRoot,
                  dispatched = [MoveAction moves, ChangeBoundsOperation ebs],
                  elementIds_after = ids \<rparr>"
    using assms(1-3) r(1) by (simp add: align_execute_def)
  then show ?thesis
    using r(2,3) unfolding sel by blast
qed

text \<open>
  The three example elements taken from the selection and aligned to the last of them,
  whose left edge is at 7.
\<close>

theorem align_left_edges_witness:
  "getActionElements (\<lambda>element. True) [''a'', ''b'', ''c''] example_root
     (aa_elementIds align_selection_action) = ([el_a, el_b, el_c], [''a'', ''b'', ''c''])
   \<and> aa_selectionFunction align_selection_action [el_a, el_b, el_c] = [Some el_c]
   \<and> (\<exists>moves ebs.
         align_execute (\<lambda>element. True) None [''a'', ''b'', ''c''] align_selection_action example_root
           = Inr \<lparr> returned = example_root,
                   dispatched = [MoveAction moves, ChangeBoundsOperation ebs],
                   elementIds_after = [''a'', ''b'', ''c''] \<rparr>
       \<and> list_all2 (\<lambda>element m. em_elementId m = e_id element \<and> pt_x (em_toPosition m) = 7
                        \<and> pt_y (em_toPosition m) = b_y (e_bounds element))
           [el_a, el_b, el_c] moves
       \<and> list_all2 (\<lambda>element b. eb_elementId b = e_id element \<and> pt_x (eb_newPosition b) = 7)
           [el_a, el_b, el_c] ebs)"
proof -
  have h1: "getActionElements (\<lambda>element. True) [''a'', ''b'', ''c''] example_root
     (aa_elementIds align_selection_action) = ([el_a, el_b, el_c], [''a'', ''b'', ''c''])"
    by (simp add: example_defs align_selection_action_def)
  have h2: "length [el_a, el_b, el_c] \<ge> 2" by simp
  have h3: "aa_alignment align_selection_action = Left"
    by (simp add: align_selection_action_def)
  have h4: "aa_selectionFunction align_selection_action = Select_all
      \<or> aa_selectionFunction align_selection_action = Select_first
      \<or> aa_selectionFunction align_selection_action = Select_last"
    by (simp add: align_selection_action_def)
  have h5: "\<forall>validate. (None :: (SModelElement \<Rightarrow> ElementMove \<Rightarrow> bool) option) = Some validate
      \<longrightarrow> (\<forall>e m. validate e m)"
    by simp
  have s: "aa_selectionFunction align_selection_action [el_a, el_b, el_c] = [Some el_c]"
    by (simp add: align_selection_action_def Select_last_def)
  have r: "Min ((\<lambda>e. b_x (e_bounds e)) `
      {e. Some e \<in> set (aa_selectionFunction align_selection_action [el_a, el_b, el_c])}) = 7"
    unfolding s by (simp add: el_c_def)
  show ?thesis
    using h1 s align_left_edges [OF h1 h2 h3 h4 h5] unfolding r by simp
qed

text \<open>
  Claim C8. When fewer than two elements qualify (after the ids are resolved, or the
  selection is taken in their place, and the elements are filtered by \<open>isResizable\<close>),
  \<open>ResizeElementsCommand.execute\<close> dispatches no action and returns the root of the
  context.
\<close>

theorem resize_fewer_than_two_noop:
  assumes "getActionElements isResizable selectedElementIDs contextRoot (ra_elementIds action)
             = (elements, ids)"
    and "length elements < 2"
  shows "dispatched (resize_execute isResizable movementRestrictor selectedElementIDs action contextRoot) = []
       \<and> returned (resize_execute isResizable movementRestrictor selectedElementIDs action contextRoot)
           = contextRoot"
  using assms by (simp add: resize_execute_def)

text \<open>An action that names the element \<open>a\<close> and an id that the index does not know.\<close>

theorem resize_fewer_than_two_noop_witness:
  "getActionElements (\<lambda>element. True) [''b'', ''c''] example_root (ra_elementIds resize_one_action)
     = ([el_a], [''a'', ''zz''])
   \<and> length [el_a] < 2
   \<and> dispatched (resize_execute (\<lambda>element. True) None [''b'', ''c''] resize_one_action example_root) = []
   \<and> returned (resize_execute (\<lambda>element. True) None [''b'', ''c''] resize_one_action example_root)
       = example_root"
proof -
  have h1: "getActionElements (\<lambda>element. True) [''b'', ''c''] example_root
      (ra_elementIds resize_one_action) = ([el_a], [''a'', ''zz''])"
    by (simp add: example_defs resize_one_action_def)
  have h2: "length [el_a] < 2" by simp
  show ?thesis
    using h1 h2 resize_fewer_than_two_noop [OF h1 h2, of None] by simp
qed

text \<open>
  Claim C9. When \<open>ResizeElementsCommand\<close> runs with dimension \<open>Width\<close>, either fewer than
  two elements qualify and nothing is dispatched, or the entries it dispatches belong,
  in order, to a subsequence of the qualifying elements, and every entry has the id of
  its element, \<open>newPosition.y\<close> equal to the element's \<open>bounds.y\<close> and
  \<open>newSize.height\<close> equal to the element's \<open>bounds.height\<close>.
\<close>

theorem resize_width_frame:
  assumes "getActionElements isResizable selectedElementIDs contextRoot (ra_elementIds action)
             = (elements, ids)"
    and "ra_dimension action = Width"
    and "dispatched (resize_execute isResizable movementRestrictor selectedElementIDs action contextRoot)
           = actions"
  shows "actions = [] \<and> length elements < 2
       \<or> (\<exists>kept ebs. subseq kept elements
            \<and> actions = [SetBoundsAction ebs, ChangeBoundsOperation ebs]
            \<and> list_all2 (\<lambda>element b.
                  eb_elementId b = e_id element
                \<and> pt_y (eb_newPosition b) = b_y (e_bounds element)
                \<and> dim_height (eb_newSize b) = b_height (e_bounds element)) kept ebs)"
proof (cases "length elements > 1")
  case False
  then show ?thesis using assms by (auto simp: resize_execute_def)
next
  case True
  define t where "t = ra_reductionFunction action (map (\<lambda>element. b_width (e_bounds element)) elements)"
  define change :: "SModelElement \<Rightarrow> ElementAndBounds \<Rightarrow> ElementAndBounds"
    where "change = (\<lambda>element bounds.
      let halfDiffWidth = 0.5 * (t - b_width (e_bounds element))
      in bounds\<lparr> eb_newPosition :=
                   (eb_newPosition bounds)\<lparr> pt_x := b_x (e_bounds element) - halfDiffWidth \<rparr>,
                 eb_newSize := (eb_newSize bounds)\<lparr> dim_width := t \<rparr> \<rparr>)"
  define f where "f = (\<lambda>element. resize_createElementAndBounds movementRestrictor element change)"
  have acts: "actions = [SetBoundsAction (List.map_filter f elements),
                         ChangeBoundsOperation (List.map_filter f elements)]"
    using True assms
    by (simp add: resize_execute_def resizeWidth_def dispatchResizeActions_def t_def change_def
          f_def Let_def)
  obtain kept where k: "subseq kept elements"
      "List.map_filter f elements = map (\<lambda>a. the (f a)) kept" "\<forall>a\<in>set kept. f a \<noteq> None"
    using map_filter_subseq [of elements f] by blast
  have "eb_elementId (the (f element)) = e_id element
      \<and> pt_y (eb_newPosition (the (f element))) = b_y (e_bounds element)
      \<and> dim_height (eb_newSize (the (f element))) = b_height (e_bounds element)"
    if "f element \<noteq> None" for element
  proof -
    from that obtain b where b: "f element = Some b" by blast
    then have "b = change element
        \<lparr> eb_elementId = e_id element,
          eb_newPosition = \<lparr> pt_x = b_x (e_bounds element), pt_y = b_y (e_bounds element) \<rparr>,
          eb_newSize = \<lparr> dim_width = b_width (e_bounds element),
                         dim_height = b_height (e_bounds element) \<rparr> \<rparr>"
      unfolding f_def resize_createElementAndBounds_def Let_def
      by (rule toValidElementAndBounds_Some)
    then show ?thesis
      using b by (simp add: change_def Let_def)
  qed
  then have "list_all2 (\<lambda>element b.
                  eb_elementId b = e_id element
                \<and> pt_y (eb_newPosition b) = b_y (e_bounds element)
                \<and> dim_height (eb_newSize b) = b_height (e_bounds element))
               kept (map (\<lambda>a. the (f a)) kept)"
    using k(3) by (simp add: list_all2_map2 list_all2_same)
  with acts k(1,2) show ?thesis
    by (intro disjI2 exI [of _ kept] exI [of _ "map (\<lambda>a. the (f a)) kept"]) simp
qed

text \<open>The three example elements under a restrictor that rejects the change of one of them.\<close>

theorem resize_width_frame_witness:
  "getActionElements (\<lambda>element. True) [] example_root (ra_elementIds resize_all_action)
     = ([el_a, el_b, el_c], [''a'', ''b'', ''c''])
   \<and> ra_dimension resize_all_action = Width
   \<and> (\<exists>kept ebs. subseq kept [el_a, el_b, el_c]
        \<and> dispatched (resize_execute (\<lambda>element. True) (Some pin_b) [] resize_all_action example_root)
            = [SetBoundsAction ebs, ChangeBoundsOperation ebs]
        \<and> list_all2 (\<lambda>element b.
              eb_elementId b = e_id element
            \<and> pt_y (eb_newPosition b) = b_y (e_bounds element)
            \<and> dim_height (eb_newSize b) = b_height (e_bounds element)) kept ebs)"
proof -
  have h1: "getActionElements (\<lambda>element. True) [] example_root (ra_elementIds resize_all_action)
      = ([el_a, el_b, el_c], [''a'', ''b'', ''c''])"
    by (simp add: example_defs resize_all_action_def)
  have h2: "ra_dimension resize_all_action = Width"
    by (simp add: resize_all_action_def)
  show ?thesis
    using h1 h2 resize_width_frame [OF h1 h2 refl, of "Some pin_b"] by simp
qed

section \<open>Properties of the marker navigator\<close>

text \<open>
  Claim C6. Without a current element, \<open>next\<close> and \<open>previous\<close> both return the first
  element of the filtered and sorted markers, and \<open>undefined\<close> when there is no marker.
\<close>

theorem navigation_without_current:
  "next cmp collectIssueMarkers modelRoot None predicate =
     (case getMarkers cmp collectIssueMarkers modelRoot predicate of
        [] \<Rightarrow> None | first # _ \<Rightarrow> Some first)
   \<and> previous cmp collectIssueMarkers modelRoot None predicate =
     (case getMarkers cmp collectIssueMarkers modelRoot predicate of
        [] \<Rightarrow> None | first # _ \<Rightarrow> Some first)"
  by (simp add: next_def previous_def split: list.split)

text \<open>
  On the three example markers, whose reading order is \<open>a\<close>, \<open>b\<close>, \<open>c\<close>, \<open>previous\<close>
  without a current element returns \<open>a\<close>, not the last marker \<open>c\<close>.
\<close>

lemma previous_without_current_example:
  "previous reading_order (\<lambda>r. r) three_markers None (\<lambda>marker. True) = Some el_a
   \<and> last (getMarkers reading_order (\<lambda>r. r) three_markers (\<lambda>marker. True)) = el_c
   \<and> el_a \<noteq> el_c"
  by (simp add: previous_def getMarkers_def js_sort_def three_markers_def reading_order_def
        LeftToRightTopToBottomComparator_compare_def el_a_def el_b_def el_c_def)

text \<open>
  Claim C7. Let there be at least one filtered and sorted marker. When no marker
  compares greater than the current element, \<open>next\<close> returns the first marker; when no
  marker compares less than the current element, \<open>previous\<close> returns the last marker; and
  for every current element \<open>next\<close> and \<open>previous\<close> return one of the markers.
\<close>

theorem navigation_wraps:
  assumes "getMarkers cmp collectIssueMarkers modelRoot predicate = markers"
    and "markers \<noteq> []"
  shows "((\<forall>m\<in>set markers. cmp m cur1 \<le> 0) \<longrightarrow>
            next cmp collectIssueMarkers modelRoot (Some cur1) predicate = Some (markers ! 0))
       \<and> ((\<forall>m\<in>set markers. cmp m cur2 \<ge> 0) \<longrightarrow>
            previous cmp collectIssueMarkers modelRoot (Some cur2) predicate
              = Some (markers ! (length markers - 1)))
       \<and> (\<exists>m\<in>set markers. next cmp collectIssueMarkers modelRoot (Some cur) predicate = Some m)
       \<and> (\<exists>m\<in>set markers. previous cmp collectIssueMarkers modelRoot (Some cur) predicate = Some m)"
proof (intro conjI impI)
  assume "\<forall>m\<in>set markers. cmp m cur1 \<le> 0"
  then have "getNextIndex cmp cur1 markers = 0"
    by (simp add: getNextIndex_def getNextIndex_loop_none)
  then show "next cmp collectIssueMarkers modelRoot (Some cur1) predicate = Some (markers ! 0)"
    using assms js_index_rem_in_range [of 0 markers] by (simp add: next_def)
next
  assume "\<forall>m\<in>set markers. cmp m cur2 \<ge> 0"
  then have "getPreviousIndex cmp cur2 markers = int (length markers) - 1"
    by (simp add: getPreviousIndex_def getPreviousIndex_loop_none)
  moreover have "nat (int (length markers) - 1) = length markers - 1"
    by simp
  ultimately show "previous cmp collectIssueMarkers modelRoot (Some cur2) predicate
      = Some (markers ! (length markers - 1))"
    using assms js_index_rem_in_range [of "int (length markers) - 1" markers]
    by (simp add: previous_def)
next
  let ?k = "getNextIndex cmp cur markers"
  have "0 \<le> ?k \<and> ?k < int (length markers)"
    using assms(2) by (simp add: getNextIndex_def getNextIndex_loop_range)
  then have "next cmp collectIssueMarkers modelRoot (Some cur) predicate = Some (markers ! nat ?k)"
      and "nat ?k < length markers"
    using assms js_index_rem_in_range [of ?k markers] by (auto simp: next_def nat_less_iff)
  then show "\<exists>m\<in>set markers. next cmp collectIssueMarkers modelRoot (Some cur) predicate = Some m"
    by simp
next
  let ?k = "getPreviousIndex cmp cur markers"
  have "0 \<le> ?k \<and> ?k < int (length markers)"
    using assms(2) by (simp add: getPreviousIndex_def getPreviousIndex_loop_range)
  then have "previous cmp collectIssueMarkers modelRoot (Some cur) predicate = Some (markers ! nat ?k)"
      and "nat ?k < length markers"
    using assms js_index_rem_in_range [of ?k markers] by (auto simp: previous_def nat_less_iff)
  then show "\<exists>m\<in>set markers. previous cmp collectIssueMarkers modelRoot (Some cur) predicate = Some m"
    by simp
qed

text \<open>
  The three example markers: \<open>next\<close> from the last one is the first, \<open>previous\<close> from
  the first one is the last.
\<close>

theorem navigation_wraps_witness:
  "getMarkers reading_order (\<lambda>r. r) three_markers (\<lambda>marker. True) = [el_a, el_b, el_c]
   \<and> list_all (\<lambda>m. reading_order m el_c \<le> 0) [el_a, el_b, el_c]
   \<and> next reading_order (\<lambda>r. r) three_markers (Some el_c) (\<lambda>marker. True) = Some el_a
   \<and> list_all (\<lambda>m. reading_order m el_a \<ge> 0) [el_a, el_b, el_c]
   \<and> previous reading_order (\<lambda>r. r) three_markers (Some el_a) (\<lambda>marker. True) = Some el_c
   \<and> (\<exists>m\<in>set [el_a, el_b, el_c].
         next reading_order (\<lambda>r. r) three_markers (Some el_b) (\<lambda>marker. True) = Some m)
   \<and> (\<exists>m\<in>set [el_a, el_b, el_c].
         previous reading_order (\<lambda>r. r) three_markers (Some el_b) (\<lambda>marker. True) = Some m)"
proof -
  have h1: "getMarkers reading_order (\<lambda>r. r) three_markers (\<lambda>marker. True) = [el_a, el_b, el_c]"
    by (simp add: getMarkers_def js_sort_def three_markers_def reading_order_def
          LeftToRightTopToBottomComparator_compare_def el_a_def el_b_def el_c_def)
  have h2: "[el_a, el_b, el_c] \<noteq> []" by simp
  have h3: "\<forall>m\<in>set [el_a, el_b, el_c]. reading_order m el_c \<le> 0"
    by (simp add: reading_order_def LeftToRightTopToBottomComparator_compare_def
          el_a_def el_b_def el_c_def)
  have h4: "\<forall>m\<in>set [el_a, el_b, el_c]. reading_order m el_a \<ge> 0"
    by (simp add: reading_order_def LeftToRightTopToBottomComparator_compare_def
          el_a_def el_b_def el_c_def)
  show ?thesis
    using h1 h3 h4 navigation_wraps [OF h1 h2, of el_c el_a el_b] by simp
qed

end
